theory Spec2Isabelle
  imports Complex_Main "HOL-Library.AList"
begin

section \<open>Python values, dictionaries and number formatting\<close>

text \<open>
  The conversion engine is Python. Numbers that Python holds as floats are modelled as
  exact reals, integers as \<open>int\<close> or \<open>nat\<close>, strings as byte lists (a character outside
  ASCII is its UTF-8 bytes). A dictionary whose keys are chosen at run time is an
  association list in insertion order; \<open>AList.update\<close> is Python's \<open>d[k] = v\<close>: it
  replaces the value of a key in place and appends a new key at the end.
  Every exception the modelled code can raise is a value of \<open>py_error\<close>.
\<close>

datatype py_error = TypeError | ValueError | IndexError | ZeroDivisionError

datatype pyval =
    PNone
  | PBool bool
  | PInt int
  | PFloat real
  | PStr string
  | PList "pyval list"
  | PDict "(string \<times> pyval) list"

type_synonym pydict = "(string \<times> pyval) list"

text \<open>A key of a JSON object (or a keyword argument) is absent, present with the value
  null, or present with a value.\<close>

datatype 'a field = Absent | Null | Val 'a

definition dict_get :: "pydict \<Rightarrow> string \<Rightarrow> pyval \<Rightarrow> pyval" where
  \<comment> \<open>\<open>d.get(k, default)\<close>\<close>
  "dict_get d k dflt = (case map_of d k of Some v \<Rightarrow> v | None \<Rightarrow> dflt)"

definition digit_char :: "nat \<Rightarrow> char" where
  "digit_char d = ''0123456789'' ! d"

fun str_nat :: "nat \<Rightarrow> string" where
  "str_nat n = (if n < 10 then [digit_char n] else str_nat (n div 10) @ [digit_char (n mod 10)])"

declare str_nat.simps [simp del]

definition str_int :: "int \<Rightarrow> string" where
  \<comment> \<open>\<open>str(i)\<close> and \<open>f"{i}"\<close> of an int\<close>
  "str_int i = (if i < 0 then CHR ''-'' # str_nat (nat (- i)) else str_nat (nat i))"

definition zfill :: "nat \<Rightarrow> string \<Rightarrow> string" where
  \<comment> \<open>zero padding on the left up to a width, as the format \<open>0Nd\<close> does for a natural number\<close>
  "zfill w s = replicate (w - length s) CHR ''0'' @ s"

definition digit_val :: "char \<Rightarrow> nat" where
  "digit_val c = of_char c - 48"

definition nat_of_str :: "string \<Rightarrow> nat" where
  "nat_of_str s = foldl (\<lambda>a c. 10 * a + digit_val c) 0 s"

section \<open>The IR builder (postprocessor/Ruki\_E.py, class RobotPost)\<close>

text \<open>
  A target is the dictionary \<open>_add_target\<close> builds; field \<open>tg_k\<close> is its key \<open>k\<close>
  (\<open>tg_ctx_*\<close> the keys of its \<open>context\<close>, \<open>tg_track_pose\<close> and \<open>tg_turntable_pose\<close>
  the keys of its \<open>external_axes\<close>). The keys \<open>joints\<close>, \<open>pose\<close> and \<open>pose_matrix\<close> can be
  absent or null in an IR document, and the emitters tell the three cases apart.
\<close>

record target =
  tg_id :: string
  tg_name :: string
  tg_is_joint_target :: bool
  tg_joints :: "real list field"
  tg_joints_unit :: string
  tg_pose :: "real list field"
  tg_pose_format :: string
  tg_config_RLF :: "int list option"
  tg_ctx_frame :: pyval
  tg_ctx_frame_id :: pyval
  tg_ctx_tool :: pyval
  tg_ctx_tool_id :: pyval
  tg_track_pose :: "real list option"
  tg_turntable_pose :: "real list option"
  tg_pose_matrix :: "real list list field"

text \<open>
  The host (RoboDK) hands poses over as objects of its own matrix type \<open>'p\<close>. The three
  library functions the post processor calls on them are parameters: the conversion of a
  pose to \<open>[x, y, z, rx, ry, rz]\<close> and to its rows, \<open>None\<close> where the call raises (the
  helpers catch every exception and return \<open>None\<close>), and the file-name filter.
\<close>

record 'p host =
  pose_2_xyzrpw :: "'p \<Rightarrow> real list option"
  pose_rows :: "'p \<Rightarrow> real list list option"
  FilterName :: "string \<Rightarrow> string"

definition pose_to_xyzrpw_deg :: "'p host \<Rightarrow> 'p option \<Rightarrow> real list option" where
  "pose_to_xyzrpw_deg h pose = (case pose of None \<Rightarrow> None | Some p \<Rightarrow> pose_2_xyzrpw h p)"

definition pose_to_matrix :: "'p host \<Rightarrow> 'p option \<Rightarrow> real list list option" where
  "pose_to_matrix h pose = (case pose of None \<Rightarrow> None | Some p \<Rightarrow> pose_rows h p)"

definition joints_to_list :: "real list option \<Rightarrow> real list option" where
  "joints_to_list joints = (case joints of None \<Rightarrow> None | Some js \<Rightarrow> Some js)"

definition config_to_list :: "int list option \<Rightarrow> int list option" where
  "config_to_list conf_RLF = (case conf_RLF of None \<Rightarrow> None | Some c \<Rightarrow> Some c)"

definition filter_name :: "'p host \<Rightarrow> string \<Rightarrow> string" where
  "filter_name h name = FilterName h name"

definition nullable :: "'a option \<Rightarrow> 'a field" where
  \<comment> \<open>a key that is always written, with null for \<open>None\<close>\<close>
  "nullable v = (case v of None \<Rightarrow> Null | Some x \<Rightarrow> Val x)"

definition py_floats :: "real list option \<Rightarrow> pyval" where
  "py_floats v = (case v of None \<Rightarrow> PNone | Some xs \<Rightarrow> PList (map PFloat xs))"

definition py_matrix :: "real list list option \<Rightarrow> pyval" where
  "py_matrix v = (case v of None \<Rightarrow> PNone | Some rows \<Rightarrow> PList (map (\<lambda>r. PList (map PFloat r)) rows))"

definition py_opt_str :: "string option \<Rightarrow> pyval" where
  "py_opt_str v = (case v of None \<Rightarrow> PNone | Some s \<Rightarrow> PStr s)"

record 'p builder =
  TargetName :: "string option"
  TargetNameVia :: "string option"
  PoseTrack :: "'p option"
  PoseTurntable :: "'p option"
  PROG_NAME :: string
  PROG_NAMES :: "string list"
  INCLUDE_MATRICES :: bool
  frames :: "(string \<times> pydict) list"
  tools :: "(string \<times> pydict) list"
  targets :: "target list"
  target_counter :: nat
  io_map :: "(string \<times> pydict) list"
  steps :: "pydict list"
  instruction_index :: nat
  current_state :: pydict
  initial_state :: "pydict option"
  subprograms :: "(string \<times> pydict) list"
  current_subprogram :: "string option"

definition implicit_meta :: pyval where
  "implicit_meta = PDict [(''kind'', PStr ''implicit''), (''source'', PStr ''ruki_default'')]"

definition zero_pose :: pyval where
  "zero_pose = PList [PInt 0, PInt 0, PInt 0, PInt 0, PInt 0, PInt 0]"

definition init_builder :: "'p builder" where
  \<comment> \<open>\<open>RobotPost.__init__\<close>, with the class attribute \<open>INCLUDE_MATRICES = True\<close>\<close>
  "init_builder = \<lparr>
     TargetName = None, TargetNameVia = None, PoseTrack = None, PoseTurntable = None,
     PROG_NAME = '''', PROG_NAMES = [], INCLUDE_MATRICES = True,
     frames = [(''world'', [(''parent'', PNone), (''pose'', zero_pose),
                 (''pose_format'', PStr ''xyzrpw_mm_deg''), (''_meta'', implicit_meta)])],
     tools = [(''tool0'', [(''tcp_pose'', zero_pose), (''pose_format'', PStr ''xyzrpw_mm_deg''),
                 (''payload_mass'', PInt 0), (''payload_cog'', PList [PInt 0, PInt 0, PInt 0]),
                 (''_meta'', implicit_meta)])],
     targets = [], target_counter = 0, io_map = [], steps = [], instruction_index = 0,
     current_state = [(''active_frame'', PStr ''world''), (''active_frame_id'', PInt (- 1)),
                      (''active_tool'', PStr ''tool0''), (''active_tool_id'', PInt (- 1)),
                      (''speed_linear'', PFloat 500), (''speed_joints'', PFloat 60),
                      (''accel_linear'', PFloat 2000), (''accel_joints'', PFloat 180),
                      (''rounding'', PFloat 0)],
     initial_state = None, subprograms = [], current_subprogram = None \<rparr>"

definition copy_state :: "'p builder \<Rightarrow> pydict" where
  \<comment> \<open>\<open>_copy_state\<close>: \<open>dict(self.current_state)\<close>\<close>
  "copy_state b = current_state b"

definition target_id_of :: "nat \<Rightarrow> string" where
  \<comment> \<open>\<open>f"T{self.target_counter:03d}"\<close>\<close>
  "target_id_of n = CHR ''T'' # zfill 3 (str_nat n)"

definition truthy_name :: "string option \<Rightarrow> bool" where
  \<comment> \<open>the truth value of a name: neither \<open>None\<close> nor the empty string\<close>
  "truthy_name name = (case name of None \<Rightarrow> False | Some s \<Rightarrow> s \<noteq> [])"

definition add_target ::
  "'p host \<Rightarrow> 'p option \<Rightarrow> real list option \<Rightarrow> int list option \<Rightarrow> string option
     \<Rightarrow> 'p builder \<Rightarrow> string \<times> 'p builder" where
  \<comment> \<open>\<open>RobotPost._add_target(pose, joints, conf_RLF, name)\<close>: the id returned and the builder after\<close>
  "add_target h pose joints conf_RLF name b =
    (let counter = target_counter b + 1;
         target_id = target_id_of counter;
         is_joint_target = (pose = None);
         joints_list = joints_to_list joints;
         pose_xyzrpw = pose_to_xyzrpw_deg h pose;
         config_list = config_to_list conf_RLF;
         cs = current_state b;
         tgt = \<lparr> tg_id = target_id,
                 tg_name = (if truthy_name name then the name else ''Target_'' @ str_nat counter),
                 tg_is_joint_target = is_joint_target,
                 tg_joints = nullable joints_list,
                 tg_joints_unit = ''deg'',
                 tg_pose = nullable pose_xyzrpw,
                 tg_pose_format = ''xyzrpw_mm_deg'',
                 tg_config_RLF = config_list,
                 tg_ctx_frame = dict_get cs ''active_frame'' PNone,
                 tg_ctx_frame_id = dict_get cs ''active_frame_id'' PNone,
                 tg_ctx_tool = dict_get cs ''active_tool'' PNone,
                 tg_ctx_tool_id = dict_get cs ''active_tool_id'' PNone,
                 tg_track_pose = pose_to_xyzrpw_deg h (PoseTrack b),
                 tg_turntable_pose = pose_to_xyzrpw_deg h (PoseTurntable b),
                 tg_pose_matrix = (if INCLUDE_MATRICES b \<and> pose \<noteq> None
                                   then nullable (pose_to_matrix h pose) else Absent) \<rparr>
     in (target_id, b\<lparr>target_counter := counter, targets := targets b @ [tgt]\<rparr>))"

definition private_key :: "string \<Rightarrow> bool" where
  \<comment> \<open>\<open>key.startswith('_')\<close>\<close>
  "private_key k = (case k of [] \<Rightarrow> False | c # _ \<Rightarrow> c = CHR ''_'')"

definition state_update :: "string \<Rightarrow> pydict \<Rightarrow> pydict \<Rightarrow> pydict" where
  \<comment> \<open>the part of \<open>_add_step\<close> that updates \<open>self.current_state\<close> from the step's type\<close>
  "state_update step_type kwargs cs =
    (if step_type = ''SET_FRAME'' then
       AList.update ''active_frame_id'' (dict_get kwargs ''frame_id'' (PInt (- 1)))
         (AList.update ''active_frame'' (dict_get kwargs ''frame'' (dict_get cs ''active_frame'' PNone)) cs)
     else if step_type = ''SET_TOOL'' then
       AList.update ''active_tool_id'' (dict_get kwargs ''tool_id'' (PInt (- 1)))
         (AList.update ''active_tool'' (dict_get kwargs ''tool'' (dict_get cs ''active_tool'' PNone)) cs)
     else if step_type = ''SET_SPEED'' then
       (let cs1 = (case map_of kwargs ''speed_linear'' of None \<Rightarrow> cs
                   | Some v \<Rightarrow> AList.update ''speed_linear'' v cs)
        in (case map_of kwargs ''speed_joints'' of None \<Rightarrow> cs1
            | Some v \<Rightarrow> AList.update ''speed_joints'' v cs1))
     else if step_type = ''SET_ACCEL'' then
       (let cs1 = (case map_of kwargs ''accel_linear'' of None \<Rightarrow> cs
                   | Some v \<Rightarrow> AList.update ''accel_linear'' v cs)
        in (case map_of kwargs ''accel_joints'' of None \<Rightarrow> cs1
            | Some v \<Rightarrow> AList.update ''accel_joints'' v cs1))
     else if step_type = ''SET_ROUNDING'' then
       AList.update ''rounding'' (dict_get kwargs ''rounding'' (PInt 0)) cs
     else cs)"

definition add_step :: "string \<Rightarrow> pydict \<Rightarrow> 'p builder \<Rightarrow> 'p builder" where
  \<comment> \<open>\<open>RobotPost._add_step(step_type, **kwargs)\<close>\<close>
  "add_step step_type kwargs b =
    (let idx = instruction_index b + 1;
         step0 = [(''index'', PInt (int idx)), (''type'', PStr step_type),
                  (''state_before'', PDict (copy_state b))];
         step1 = fold (\<lambda>(k, v) d. if private_key k then d else AList.update k v d) kwargs step0;
         b1 = b\<lparr>instruction_index := idx,
                current_state := state_update step_type kwargs (current_state b)\<rparr>;
         step2 = AList.update ''state_after'' (PDict (copy_state b1)) step1
     in b1\<lparr>steps := steps b1 @ [step2]\<rparr>)"

datatype io_var = IoInt int | IoStr string

definition io_str :: "io_var \<Rightarrow> string" where
  "io_str v = (case v of IoInt i \<Rightarrow> str_int i | IoStr s \<Rightarrow> s)"

definition io_index_val :: "io_var \<Rightarrow> pyval" where
  "io_index_val v = (case v of IoInt i \<Rightarrow> PInt i | IoStr s \<Rightarrow> PStr s)"

definition get_io_ref :: "io_var \<Rightarrow> string \<Rightarrow> 'p builder \<Rightarrow> string \<times> 'p builder" where
  \<comment> \<open>\<open>RobotPost._get_io_ref(io_var, io_type)\<close>\<close>
  "get_io_ref v io_type b =
    (let io_ref = io_type @ ''_'' @ io_str v
     in (io_ref,
         (case map_of (io_map b) io_ref of
            Some _ \<Rightarrow> b
          | None \<Rightarrow> b\<lparr>io_map := AList.update io_ref
                        [(''type'', PStr io_type), (''index'', io_index_val v)] (io_map b)\<rparr>)))"

definition io_bool :: "pyval \<Rightarrow> pyval" where
  \<comment> \<open>\<open>bool(io_value) if isinstance(io_value, (int, bool)) else io_value\<close>\<close>
  "io_bool v = (case v of PInt i \<Rightarrow> PBool (i \<noteq> 0) | PBool c \<Rightarrow> PBool c | w \<Rightarrow> w)"

definition ProgStart :: "'p host \<Rightarrow> string \<Rightarrow> 'p builder \<Rightarrow> 'p builder" where
  "ProgStart h progname b =
    (let name = filter_name h progname;
         b1 = b\<lparr>PROG_NAME := name, PROG_NAMES := PROG_NAMES b @ [name]\<rparr>;
         b2 = (case initial_state b1 of None \<Rightarrow> b1\<lparr>initial_state := Some (copy_state b1)\<rparr>
               | Some _ \<Rightarrow> b1)
     in if length (PROG_NAMES b2) > 1
        then b2\<lparr>current_subprogram := Some name,
                 subprograms := AList.update name
                   [(''start_step'', PInt (int (instruction_index b2 + 1)))] (subprograms b2)\<rparr>
        else b2)"

definition ProgFinish :: "string \<Rightarrow> 'p builder \<Rightarrow> 'p builder" where
  \<comment> \<open>the subprogram named by \<open>current_subprogram\<close> is a key of \<open>subprograms\<close> whenever it is set\<close>
  "ProgFinish progname b =
    (if truthy_name (current_subprogram b)
     then b\<lparr>subprograms := AList.map_entry (the (current_subprogram b))
                (AList.update ''end_step'' (PInt (int (instruction_index b)))) (subprograms b),
             current_subprogram := None\<rparr>
     else b)"

definition MoveJ ::
  "'p host \<Rightarrow> 'p option \<Rightarrow> real list option \<Rightarrow> int list option \<Rightarrow> 'p builder \<Rightarrow> 'p builder" where
  "MoveJ h pose joints conf_RLF b =
    (let target_name = TargetName b;
         (target_id, b1) = add_target h pose joints conf_RLF target_name b;
         b2 = add_step ''MOVE_J'' [(''target'', PStr target_id),
                                   (''target_name'', py_opt_str target_name)] b1
     in b2\<lparr>TargetName := None\<rparr>)"

definition MoveL ::
  "'p host \<Rightarrow> 'p option \<Rightarrow> real list option \<Rightarrow> int list option \<Rightarrow> 'p builder \<Rightarrow> 'p builder" where
  "MoveL h pose joints conf_RLF b =
    (let target_name = TargetName b;
         (target_id, b1) = add_target h pose joints conf_RLF target_name b;
         b2 = add_step ''MOVE_L'' [(''target'', PStr target_id),
                                   (''target_name'', py_opt_str target_name)] b1
     in b2\<lparr>TargetName := None\<rparr>)"

definition MoveC ::
  "'p host \<Rightarrow> 'p option \<Rightarrow> real list option \<Rightarrow> 'p option \<Rightarrow> real list option
     \<Rightarrow> int list option \<Rightarrow> int list option \<Rightarrow> 'p builder \<Rightarrow> 'p builder" where
  "MoveC h pose1 joints1 pose2 joints2 conf_RLF_1 conf_RLF_2 b =
    (let via_name = TargetNameVia b;
         end_name = TargetName b;
         (via_id, b1) = add_target h pose1 joints1 conf_RLF_1 via_name b;
         (end_id, b2) = add_target h pose2 joints2 conf_RLF_2 end_name b1;
         b3 = add_step ''MOVE_C'' [(''target_via'', PStr via_id),
                                   (''target_via_name'', py_opt_str via_name),
                                   (''target_end'', PStr end_id),
                                   (''target_end_name'', py_opt_str end_name)] b2
     in b3\<lparr>TargetName := None, TargetNameVia := None\<rparr>)"

definition setFrame :: "'p host \<Rightarrow> 'p option \<Rightarrow> int \<Rightarrow> string option \<Rightarrow> 'p builder \<Rightarrow> 'p builder" where
  "setFrame h pose frame_id frame_name b =
    (let frame_key = (if truthy_name frame_name then filter_name h (the frame_name)
                      else ''frame_'' @ str_int frame_id);
         frame_data = [(''parent'', PStr ''world''),
                       (''pose'', py_floats (pose_to_xyzrpw_deg h pose)),
                       (''pose_format'', PStr ''xyzrpw_mm_deg''),
                       (''frame_id'', PInt frame_id),
                       (''original_name'', py_opt_str frame_name)];
         frame_data' = (if INCLUDE_MATRICES b
                        then AList.update ''pose_matrix'' (py_matrix (pose_to_matrix h pose)) frame_data
                        else frame_data);
         b1 = b\<lparr>frames := AList.update frame_key frame_data' (frames b)\<rparr>
     in add_step ''SET_FRAME'' [(''frame'', PStr frame_key), (''frame_id'', PInt frame_id),
                                (''frame_name'', py_opt_str frame_name)] b1)"

definition setTool :: "'p host \<Rightarrow> 'p option \<Rightarrow> int \<Rightarrow> string option \<Rightarrow> 'p builder \<Rightarrow> 'p builder" where
  "setTool h pose tool_id tool_name b =
    (let tool_key = (if truthy_name tool_name then filter_name h (the tool_name)
                     else ''tool_'' @ str_int tool_id);
         tool_data = [(''tcp_pose'', py_floats (pose_to_xyzrpw_deg h pose)),
                      (''pose_format'', PStr ''xyzrpw_mm_deg''),
                      (''tool_id'', PInt tool_id),
                      (''original_name'', py_opt_str tool_name),
                      (''payload_mass'', PNone),
                      (''payload_cog'', PNone)];
         tool_data' = (if INCLUDE_MATRICES b
                       then AList.update ''pose_matrix'' (py_matrix (pose_to_matrix h pose)) tool_data
                       else tool_data);
         b1 = b\<lparr>tools := AList.update tool_key tool_data' (tools b)\<rparr>
     in add_step ''SET_TOOL'' [(''tool'', PStr tool_key), (''tool_id'', PInt tool_id),
                               (''tool_name'', py_opt_str tool_name)] b1)"

definition setSpeed :: "real \<Rightarrow> 'p builder \<Rightarrow> 'p builder" where
  "setSpeed speed_mms b = add_step ''SET_SPEED'' [(''speed_linear'', PFloat speed_mms)] b"

definition setSpeedJoints :: "real \<Rightarrow> 'p builder \<Rightarrow> 'p builder" where
  "setSpeedJoints speed_degs b = add_step ''SET_SPEED'' [(''speed_joints'', PFloat speed_degs)] b"

definition setAcceleration :: "real \<Rightarrow> 'p builder \<Rightarrow> 'p builder" where
  "setAcceleration accel_mmss b = add_step ''SET_ACCEL'' [(''accel_linear'', PFloat accel_mmss)] b"

definition setAccelerationJoints :: "real \<Rightarrow> 'p builder \<Rightarrow> 'p builder" where
  "setAccelerationJoints accel_degss b =
     add_step ''SET_ACCEL'' [(''accel_joints'', PFloat accel_degss)] b"

definition setZoneData :: "real \<Rightarrow> 'p builder \<Rightarrow> 'p builder" where
  "setZoneData zone_mm b = add_step ''SET_ROUNDING'' [(''rounding'', PFloat zone_mm)] b"

definition setDO :: "io_var \<Rightarrow> pyval \<Rightarrow> 'p builder \<Rightarrow> 'p builder" where
  "setDO v io_value b =
    (let (io_ref, b1) = get_io_ref v ''DO'' b
     in add_step ''SET_IO'' [(''io_ref'', PStr io_ref), (''io_type'', PStr ''DO''),
                             (''io_index'', io_index_val v), (''value'', io_bool io_value)] b1)"

definition setAO :: "io_var \<Rightarrow> real \<Rightarrow> 'p builder \<Rightarrow> 'p builder" where
  "setAO v io_value b =
    (let (io_ref, b1) = get_io_ref v ''AO'' b
     in add_step ''SET_IO'' [(''io_ref'', PStr io_ref), (''io_type'', PStr ''AO''),
                             (''io_index'', io_index_val v), (''value'', PFloat io_value)] b1)"

definition waitDI :: "io_var \<Rightarrow> pyval \<Rightarrow> real \<Rightarrow> 'p builder \<Rightarrow> 'p builder" where
  "waitDI v io_value timeout_ms b =
    (let (io_ref, b1) = get_io_ref v ''DI'' b;
         step_data = [(''io_ref'', PStr io_ref), (''io_type'', PStr ''DI''),
                      (''io_index'', io_index_val v), (''value'', io_bool io_value)];
         step_data' = (if timeout_ms > 0
                       then AList.update ''timeout_s'' (PFloat (timeout_ms / 1000)) step_data
                       else step_data)
     in add_step ''WAIT_IO'' step_data' b1)"

definition Pause :: "real \<Rightarrow> 'p builder \<Rightarrow> 'p builder" where
  "Pause time_ms b =
     add_step ''PAUSE'' [(''duration_s'', if time_ms > 0 then PFloat (time_ms / 1000) else PNone),
                         (''is_user_pause'', PBool (time_ms < 0))] b"

definition RunCode :: "string \<Rightarrow> bool \<Rightarrow> 'p builder \<Rightarrow> 'p builder" where
  "RunCode code is_function_call b =
     add_step ''RUN_CODE'' [(''code'', PStr code), (''is_function_call'', PBool is_function_call)] b"

definition RunMessage :: "string \<Rightarrow> bool \<Rightarrow> 'p builder \<Rightarrow> 'p builder" where
  "RunMessage message iscomment b =
     add_step ''MESSAGE'' [(''text'', PStr message), (''is_comment'', PBool iscomment)] b"

text \<open>
  What the host can do to a post processor between its creation and \<open>ProgSave\<close>: call one
  of the callbacks, or assign one of the four attributes it is documented to set
  (\<open>_TargetName\<close>, \<open>_TargetNameVia\<close>, \<open>_PoseTrack\<close>, \<open>_PoseTurntable\<close>).
\<close>

datatype 'p callback =
    CB_ProgStart string
  | CB_ProgFinish string
  | CB_MoveJ "'p option" "real list option" "int list option"
  | CB_MoveL "'p option" "real list option" "int list option"
  | CB_MoveC "'p option" "real list option" "'p option" "real list option"
             "int list option" "int list option"
  | CB_setFrame "'p option" int "string option"
  | CB_setTool "'p option" int "string option"
  | CB_setSpeed real
  | CB_setSpeedJoints real
  | CB_setAcceleration real
  | CB_setAccelerationJoints real
  | CB_setZoneData real
  | CB_setDO io_var pyval
  | CB_setAO io_var real
  | CB_waitDI io_var pyval real
  | CB_Pause real
  | CB_RunCode string bool
  | CB_RunMessage string bool
  | Set_TargetName "string option"
  | Set_TargetNameVia "string option"
  | Set_PoseTrack "'p option"
  | Set_PoseTurntable "'p option"

fun invoke :: "'p host \<Rightarrow> 'p callback \<Rightarrow> 'p builder \<Rightarrow> 'p builder" where
  "invoke h (CB_ProgStart n) b = ProgStart h n b"
| "invoke h (CB_ProgFinish n) b = ProgFinish n b"
| "invoke h (CB_MoveJ p j c) b = MoveJ h p j c b"
| "invoke h (CB_MoveL p j c) b = MoveL h p j c b"
| "invoke h (CB_MoveC p1 j1 p2 j2 c1 c2) b = MoveC h p1 j1 p2 j2 c1 c2 b"
| "invoke h (CB_setFrame p i n) b = setFrame h p i n b"
| "invoke h (CB_setTool p i n) b = setTool h p i n b"
| "invoke h (CB_setSpeed v) b = setSpeed v b"
| "invoke h (CB_setSpeedJoints v) b = setSpeedJoints v b"
| "invoke h (CB_setAcceleration v) b = setAcceleration v b"
| "invoke h (CB_setAccelerationJoints v) b = setAccelerationJoints v b"
| "invoke h (CB_setZoneData v) b = setZoneData v b"
| "invoke h (CB_setDO v x) b = setDO v x b"
| "invoke h (CB_setAO v x) b = setAO v x b"
| "invoke h (CB_waitDI v x t) b = waitDI v x t b"
| "invoke h (CB_Pause t) b = Pause t b"
| "invoke h (CB_RunCode c f) b = RunCode c f b"
| "invoke h (CB_RunMessage m c) b = RunMessage m c b"
| "invoke h (Set_TargetName n) b = b\<lparr>TargetName := n\<rparr>"
| "invoke h (Set_TargetNameVia n) b = b\<lparr>TargetNameVia := n\<rparr>"
| "invoke h (Set_PoseTrack p) b = b\<lparr>PoseTrack := p\<rparr>"
| "invoke h (Set_PoseTurntable p) b = b\<lparr>PoseTurntable := p\<rparr>"

definition run :: "'p host \<Rightarrow> 'p callback list \<Rightarrow> 'p builder" where
  \<comment> \<open>the builder after a sequence of host actions on a fresh post processor\<close>
  "run h cbs = foldl (\<lambda>b c. invoke h c b) init_builder cbs"

definition step_index :: "pydict \<Rightarrow> pyval option" where
  \<comment> \<open>\<open>step["index"]\<close>\<close>
  "step_index s = map_of s ''index''"

text \<open>
  Without RoboDK the module runs on mocks: a pose is the list \<open>[x, y, z, rx, ry, rz]\<close>
  itself (a shorter list raises, which the helper turns into \<open>None\<close>), its matrix is the
  identity, and \<open>filter_name\<close> keeps letters, digits, \<open>_\<close> and \<open>-\<close> (ASCII here).
\<close>

definition is_alnum :: "char \<Rightarrow> bool" where
  "is_alnum c = (let n = (of_char c :: nat) in (48 \<le> n \<and> n \<le> 57) \<or> (65 \<le> n \<and> n \<le> 90) \<or> (97 \<le> n \<and> n \<le> 122))"

definition mock_host :: "real list host" where
  "mock_host = \<lparr>
     pose_2_xyzrpw = (\<lambda>p. if 6 \<le> length p then Some (take 6 p) else None),
     pose_rows = (\<lambda>p. Some [[1, 0, 0, 0], [0, 1, 0, 0], [0, 0, 1, 0], [0, 0, 0, 1]]),
     FilterName = map (\<lambda>c. if is_alnum c \<or> c = CHR ''_'' \<or> c = CHR ''-'' then c else CHR ''_'') \<rparr>"

text \<open>The two invariants of the builder: step indices and target ids follow their counters.\<close>

definition idx_inv :: "'p builder \<Rightarrow> bool" where
  "idx_inv b = (map step_index (steps b) = map (\<lambda>i. Some (PInt (int i))) [1..<Suc (length (steps b))]
     \<and> instruction_index b = length (steps b))"

definition ids_inv :: "'p builder \<Rightarrow> bool" where
  "ids_inv b = (map tg_id (targets b) = map target_id_of [1..<Suc (target_counter b)])"

section \<open>Numbers as text, and the pose algebra (assets/emitters/universal\_robots.py, Ruki\_C.py)\<close>

definition deg2rad :: "real \<Rightarrow> real" where
  "deg2rad d = d * pi / 180"

definition rad2deg :: "real \<Rightarrow> real" where
  "rad2deg r = r * 180 / pi"

definition round_half_even :: "real \<Rightarrow> nat" where
  \<comment> \<open>the nearest natural number to a non-negative real, a tie going to the even one\<close>
  "round_half_even y =
    (let f = nat \<lfloor>y\<rfloor>; d = y - real f
     in if d < 1 / 2 then f else if 1 / 2 < d then f + 1 else if even f then f else f + 1)"

definition fmt_f :: "nat \<Rightarrow> real \<Rightarrow> string" where
  \<comment> \<open>\<open>f"{x:.nf}"\<close>: sign, integer digits, and \<open>n\<close> decimals of the correctly rounded value\<close>
  "fmt_f n x =
    (let r = round_half_even (\<bar>x\<bar> * 10 ^ n)
     in (if x < 0 then ''-'' else '''') @ str_nat (r div 10 ^ n) @
        (if n = 0 then '''' else ''.'' @ zfill n (str_nat (r mod 10 ^ n))))"

fun join :: "string \<Rightarrow> string list \<Rightarrow> string" where
  \<comment> \<open>\<open>sep.join(xs)\<close>\<close>
  "join sep [] = []"
| "join sep [x] = x"
| "join sep (x # y # ys) = x @ sep @ join sep (y # ys)"

definition matrix_pose :: "real list list \<Rightarrow> py_error + real list" where
  \<comment> \<open>the body of \<open>get_cartesian_pose\<close> for a matrix \<open>m\<close> of four rows (lines 27 to 42)\<close>
  "matrix_pose m =
    (if length (m ! 0) < 4 \<or> length (m ! 1) < 4 \<or> length (m ! 2) < 4 then Inl IndexError
     else
       let x = m ! 0 ! 3 / 1000; y = m ! 1 ! 3 / 1000; z = m ! 2 ! 3 / 1000;
           R = (\<lambda>i j. m ! i ! j);
           trace = R 0 0 + R 1 1 + R 2 2;
           cos_a = max (- 1) (min 1 ((trace - 1) / 2));
           angle = arccos cos_a
       in if \<bar>angle\<bar> < 1 / 10 ^ 10 then Inr [x, y, z, 0, 0, 0]
          else if \<bar>angle - pi\<bar> < 1 / 10 ^ 10 then
            (if (R 0 0 + 1) / 2 < 0 \<or> (R 1 1 + 1) / 2 < 0 \<or> (R 2 2 + 1) / 2 < 0
             then Inl ValueError
             else
               let rx = sqrt ((R 0 0 + 1) / 2) * pi;
                   ry = sqrt ((R 1 1 + 1) / 2) * pi;
                   rz = sqrt ((R 2 2 + 1) / 2) * pi;
                   ry' = (if R 0 1 < 0 then - ry else ry);
                   rz' = (if R 0 2 < 0 then - rz else rz)
               in Inr [x, y, z, rx, ry', rz'])
          else if 2 * sin angle = 0 then Inl ZeroDivisionError
          else
            let k = angle / (2 * sin angle)
            in Inr [x, y, z, k * (R 2 1 - R 1 2), k * (R 0 2 - R 2 0), k * (R 1 0 - R 0 1)])"

definition get_cartesian_pose :: "target \<Rightarrow> py_error + real list option" where
  \<comment> \<open>\<open>get_cartesian_pose(target)\<close>; the copy in Ruki\_C.py has the same body\<close>
  "get_cartesian_pose t =
    (case (case tg_pose_matrix t of
             Val m \<Rightarrow> if m \<noteq> [] \<and> length m = 4 then Some m else None
           | _ \<Rightarrow> None) of
       Some m \<Rightarrow> (case matrix_pose m of Inl e \<Rightarrow> Inl e | Inr p \<Rightarrow> Inr (Some p))
     | None \<Rightarrow>
        (case tg_pose t of
           Val p \<Rightarrow>
             if p \<noteq> [] \<and> 6 \<le> length p
             then Inr (Some [p ! 0 / 1000, p ! 1 / 1000, p ! 2 / 1000,
                             deg2rad (p ! 3), deg2rad (p ! 4), deg2rad (p ! 5)])
             else Inr None
         | _ \<Rightarrow> Inr None))"








definition no_target :: target where
  \<comment> \<open>the empty dictionary \<open>{}\<close> that \<open>targets.get(key, {})\<close> gives for an unknown id: every
      key the emitters read is absent\<close>
  "no_target = \<lparr> tg_id = '''', tg_name = '''', tg_is_joint_target = False,
     tg_joints = Absent, tg_joints_unit = '''', tg_pose = Absent, tg_pose_format = '''',
     tg_config_RLF = None, tg_ctx_frame = PNone, tg_ctx_frame_id = PNone, tg_ctx_tool = PNone,
     tg_ctx_tool_id = PNone, tg_track_pose = None, tg_turntable_pose = None,
     tg_pose_matrix = Absent \<rparr>"




section \<open>The IR document, the catalog and the XML tree the emitters work on\<close>

text \<open>
  An emitter reads an IR document (the JSON \<open>ProgSave\<close> writes) through a handful of keys.
  The records below hold those keys with the types the schema gives them; a key the code
  reads with a default is an \<open>option\<close>, \<open>None\<close> when the key is absent. A step's \<open>type\<close> is
  the empty string when absent, as \<open>step.get('type', '')\<close> gives.
\<close>

record ir_step =
  st_type :: string
  st_target :: "string option"
  st_io_index :: "io_var option"
  st_value :: pyval
  st_is_comment :: pyval
  st_text :: "string option"

record ir_initial =
  ini_speed_linear :: "real option"
  ini_speed_joints :: "real option"
  ini_accel_linear :: "real option"
  ini_accel_joints :: "real option"
  ini_rounding :: "real option"

record ruki =
  program_name :: "string option"
  ir_initial_state :: ir_initial
  ir_targets :: "target list"
  ir_steps :: "ir_step list"

text \<open>
  A catalog entry (\<open>robot_data\<close>): the \<open>urp\<close> block of strings, the full name, and the
  names of its other keys. Python takes an empty dictionary for false, so an entry with
  no key at all counts as missing.
\<close>

record robot =
  rb_urp :: "(string \<times> string) list option"
  rb_nome_completo :: "string option"
  rb_other_keys :: "string list"

record brand =
  br_modelo_padrao :: "string option"
  br_modelos_ordem :: "string list"
  br_robos :: "(string \<times> robot) list"

definition falsy_robot :: "robot option \<Rightarrow> bool" where
  \<comment> \<open>\<open>not robot_data\<close>\<close>
  "falsy_robot rd = (case rd of None \<Rightarrow> True
     | Some r \<Rightarrow> rb_urp r = None \<and> rb_nome_completo r = None \<and> rb_other_keys r = [])"

definition urp_of :: "robot option \<Rightarrow> (string \<times> string) list" where
  \<comment> \<open>\<open>robot_data.get('urp', {})\<close>\<close>
  "urp_of rd = (case rd of None \<Rightarrow> [] | Some r \<Rightarrow> (case rb_urp r of None \<Rightarrow> [] | Some u \<Rightarrow> u))"

definition nome_completo_of :: "robot option \<Rightarrow> string" where
  \<comment> \<open>\<open>robot_data.get('nome_completo', '')\<close>\<close>
  "nome_completo_of rd =
     (case rd of None \<Rightarrow> '''' | Some r \<Rightarrow> (case rb_nome_completo r of None \<Rightarrow> '''' | Some n \<Rightarrow> n))"

definition get_robot_data :: "(string \<times> brand) list \<Rightarrow> string \<Rightarrow> string \<Rightarrow> robot option" where
  \<comment> \<open>Ruki\_C.py \<open>get_robot_data(marca, modelo)\<close> over the catalog \<open>DADOS_ROBOS\<close>\<close>
  "get_robot_data catalog marca modelo =
    (case map_of catalog marca of
       None \<Rightarrow> None
     | Some d \<Rightarrow>
        (case map_of (br_robos d) modelo of
           Some r \<Rightarrow> Some r
         | None \<Rightarrow> map_of (br_robos d) (case br_modelo_padrao d of None \<Rightarrow> '''' | Some p \<Rightarrow> p)))"

datatype xml = Elem string "(string \<times> string) list" "string option" "xml list"

fun xml_tag :: "xml \<Rightarrow> string" where
  "xml_tag (Elem t a x c) = t"

fun xml_attrib :: "xml \<Rightarrow> (string \<times> string) list" where
  "xml_attrib (Elem t a x c) = a"

fun xml_children :: "xml \<Rightarrow> xml list" where
  "xml_children (Elem t a x c) = c"

definition find_child :: "string \<Rightarrow> xml \<Rightarrow> xml option" where
  \<comment> \<open>\<open>e.find(tag)\<close>: the first child with the tag\<close>
  "find_child t e = find (\<lambda>c. xml_tag c = t) (xml_children e)"

text \<open>
  What an emitter hands back: the triple \<open>(success, message, path)\<close> it returns and the
  files it wrote. A script file is kept as its list of lines (the file holds them joined
  by newlines), an archive as the element tree before \<open>indent\<close> adds whitespace and before
  serialisation and compression. \<open>os.path.join\<close> is a parameter of the emitters.
  An exception leaves the emitter and is caught by \<open>executar_conversao\<close>.
\<close>

datatype content = ScriptText "string list" | UrpTree xml

record outcome =
  success :: bool
  message :: string
  out_path :: "string option"
  written :: "(string \<times> content) list"

definition nl :: string where
  "nl = [CHR 0x0A]"

definition truthy :: "pyval \<Rightarrow> bool" where
  "truthy v = (case v of PNone \<Rightarrow> False | PBool b \<Rightarrow> b | PInt i \<Rightarrow> i \<noteq> 0
     | PFloat r \<Rightarrow> r \<noteq> 0 | PStr s \<Rightarrow> s \<noteq> [] | PList l \<Rightarrow> l \<noteq> [] | PDict d \<Rightarrow> d \<noteq> [])"

definition target_dict :: "target list \<Rightarrow> string \<Rightarrow> target option" where
  \<comment> \<open>\<open>{t['id']: t for t in targets}\<close>: a later target replaces an earlier one of the same id\<close>
  "target_dict ts = map_of (rev (map (\<lambda>t. (tg_id t, t)) ts))"

definition lookup_target :: "target list \<Rightarrow> string option \<Rightarrow> target" where
  \<comment> \<open>\<open>targets.get(step.get('target'), {})\<close>\<close>
  "lookup_target ts key =
    (case key of None \<Rightarrow> no_target
     | Some k \<Rightarrow> (case target_dict ts k of None \<Rightarrow> no_target | Some t \<Rightarrow> t))"

definition joints_or_zeros :: "target \<Rightarrow> py_error + real list" where
  \<comment> \<open>the list \<open>t.get('joints', [0]*6)\<close> is iterated: a null value raises TypeError\<close>
  "joints_or_zeros t =
    (case tg_joints t of Absent \<Rightarrow> Inr (replicate 6 0) | Null \<Rightarrow> Inl TypeError | Val js \<Rightarrow> Inr js)"

definition io_index_or_0 :: "ir_step \<Rightarrow> string" where
  \<comment> \<open>\<open>step.get('io_index', 0)\<close> inside an f-string\<close>
  "io_index_or_0 step = (case st_io_index step of None \<Rightarrow> ''0'' | Some v \<Rightarrow> io_str v)"

section \<open>IR to controller script: ruki\_para\_script\<close>

record script_acc =
  sc_linhas :: "string list"
  sc_mc :: nat
  sc_ic :: nat

definition script_step :: "target list \<Rightarrow> ir_step \<Rightarrow> script_acc \<Rightarrow> py_error + script_acc" where
  \<comment> \<open>one round of the loop over the steps (lines 149 to 166)\<close>
  "script_step ts step acc =
    (let st = st_type step in
     if st = ''MOVE_J'' then
       (case joints_or_zeros (lookup_target ts (st_target step)) of
          Inl e \<Rightarrow> Inl e
        | Inr js \<Rightarrow>
            Inr (acc\<lparr>sc_linhas := sc_linhas acc @
                        [''  movej(['' @ join '','' (map (fmt_f 6) (map deg2rad js))
                           @ ''],accel_radss,speed_rads,0,blend_radius_m)''],
                      sc_mc := sc_mc acc + 1\<rparr>))
     else if st = ''MOVE_L'' then
       (case get_cartesian_pose (lookup_target ts (st_target step)) of
          Inl e \<Rightarrow> Inl e
        | Inr None \<Rightarrow> Inr acc
        | Inr (Some pose) \<Rightarrow>
            if pose = [] then Inr acc
            else Inr (acc\<lparr>sc_linhas := sc_linhas acc @
                        [''  movel(p['' @ join '','' (map (fmt_f 6) pose)
                           @ ''],accel_mss,speed_ms,0,blend_radius_m)''],
                      sc_mc := sc_mc acc + 1\<rparr>))
     else if st = ''SET_IO'' then
       Inr (acc\<lparr>sc_linhas := sc_linhas acc @
                   [''  set_standard_digital_out('' @ io_index_or_0 step @ '', ''
                      @ (if truthy (st_value step) then ''True'' else ''False'') @ '')''],
                 sc_ic := sc_ic acc + 1\<rparr>)
     else if st = ''MESSAGE'' \<and> truthy (st_is_comment step) then
       Inr (acc\<lparr>sc_linhas := sc_linhas acc @
                   [''  # '' @ (case st_text step of None \<Rightarrow> '''' | Some x \<Rightarrow> x)]\<rparr>)
     else Inr acc)"

fun script_loop :: "target list \<Rightarrow> ir_step list \<Rightarrow> script_acc \<Rightarrow> py_error + script_acc" where
  "script_loop ts [] acc = Inr acc"
| "script_loop ts (step # rest) acc =
     (case script_step ts step acc of Inl e \<Rightarrow> Inl e | Inr acc' \<Rightarrow> script_loop ts rest acc')"

definition or_default :: "real option \<Rightarrow> real \<Rightarrow> real" where
  "or_default v d = (case v of None \<Rightarrow> d | Some x \<Rightarrow> x)"

definition nome_of :: "ruki \<Rightarrow> string" where
  \<comment> \<open>\<open>ruki.get('metadata', {}).get('program_name', 'programa')\<close>\<close>
  "nome_of r = (case program_name r of None \<Rightarrow> ''programa'' | Some n \<Rightarrow> n)"

definition ruki_para_script ::
  "(string \<Rightarrow> string \<Rightarrow> string) \<Rightarrow> ruki \<Rightarrow> robot option \<Rightarrow> string \<Rightarrow> py_error + outcome" where
  "ruki_para_script os_path_join r robot_data pasta =
    (let nome = nome_of r;
         ini = ir_initial_state r;
         head = [''def '' @ nome @ ''():'',
                 ''  global speed_ms = '' @ fmt_f 3 (or_default (ini_speed_linear ini) 500 / 1000),
                 ''  global speed_rads = '' @ fmt_f 3 (deg2rad (or_default (ini_speed_joints ini) 60)),
                 ''  global accel_mss = '' @ fmt_f 3 (or_default (ini_accel_linear ini) 2000 / 1000),
                 ''  global accel_radss = '' @ fmt_f 3 (deg2rad (or_default (ini_accel_joints ini) 180)),
                 ''  global blend_radius_m = '' @ fmt_f 3 (or_default (ini_rounding ini) 0 / 1000),
                 '''']
     in case script_loop (ir_targets r) (ir_steps r) \<lparr>sc_linhas = head, sc_mc = 0, sc_ic = 0\<rparr> of
          Inl e \<Rightarrow> Inl e
        | Inr acc \<Rightarrow>
            let caminho = os_path_join pasta (nome @ ''.script'')
            in Inr \<lparr> success = True,
                     message = ''Movimentos: '' @ str_nat (sc_mc acc) @ nl @ ''IOs: ''
                               @ str_nat (sc_ic acc) @ nl @ nl @ ''Arquivo: '' @ caminho,
                     out_path = Some caminho,
                     written = [(caminho, ScriptText (sc_linhas acc @ [''end'', '''', nome @ ''()'']))] \<rparr>)"

section \<open>IR or script to archive: ruki\_para\_urp and script\_para\_urp\<close>

definition kin_children :: "(string \<times> string) list \<Rightarrow> xml list" where
  \<comment> \<open>\<open>for k in [...]: ET.SubElement(kin, k, value=urp.get(k, ''))\<close>\<close>
  "kin_children urp =
     map (\<lambda>k. Elem k [(''value'', case map_of urp k of None \<Rightarrow> '''' | Some v \<Rightarrow> v)] None [])
       [''deltaTheta'', ''a'', ''d'', ''alpha'', ''jointChecksum'']"

definition zero_pose_text :: string where
  "zero_pose_text = ''0.0, 0.0, 0.0, 0.0, 0.0, 0.0''"

definition move_elem :: "(string \<times> string) list \<Rightarrow> string \<Rightarrow> nat \<Rightarrow> nat \<Rightarrow> string \<Rightarrow> xml" where
  \<comment> \<open>the \<open>Move\<close> element both archive emitters build: \<open>mc\<close> moves were emitted before it,
      \<open>wp\<close> is the number of its waypoint, \<open>js\<close> the text of the joint angles\<close>
  "move_elem urp motion mc wp js =
    Elem ''Move'' [(''motionType'', motion), (''speed'', ''1.0''), (''acceleration'', ''1.2''),
                   (''useActiveTCP'', ''true''), (''positionType'', ''CartesianPose'')] None
      [Elem ''feature''
         [(''class'', ''GeomFeatureReference''),
          (if mc = 0 then ''referencedName'' else ''reference'',
           if mc = 0 then ''Joint_0_name'' else ''../../Move/feature'')] None [],
       Elem ''children'' [] None
         [Elem ''Waypoint'' [(''type'', ''Fixed''), (''name'', ''Waypoint_'' @ str_nat wp),
                             (''kinematicsFlags'', ''4'')] None
            [Elem ''motionParameters'' [] None [],
             Elem ''position'' [] None
               [Elem ''JointAngles'' [(''angles'', js)] None [],
                Elem ''TCPOffset'' [(''pose'', zero_pose_text)] None [],
                Elem ''Kinematics'' [(''status'', ''NOT_INITIALIZED''), (''validChecksum'', ''false'')]
                  None (kin_children urp)],
             Elem ''BaseToFeature'' [(''pose'', zero_pose_text)] None []]]]"

definition set_elem :: "nat \<Rightarrow> string \<Rightarrow> bool \<Rightarrow> xml" where
  \<comment> \<open>the \<open>Set\<close> element: \<open>ic\<close> IO elements were emitted before it\<close>
  "set_elem ic idx on =
    Elem ''Set'' [(''type'', ''DigitalOutput'')] None
      [Elem ''pin'' [(if ic = 0 then ''referencedName'' else ''reference'',
                      if ic = 0 then ''digital_out['' @ idx @ '']'' else ''../../Set/pin'')] None [],
       Elem ''digitalValue'' [] (Some (if on then ''1'' else ''0'')) []]"

definition urp_root :: "string \<Rightarrow> (string \<times> string) list \<Rightarrow> xml list \<Rightarrow> xml" where
  \<comment> \<open>the document around the main program's children\<close>
  "urp_root nome urp main_children =
    Elem ''URProgram'' [(''name'', nome), (''installation'', ''default''),
                        (''directory'', ''/programs''), (''createdIn'', ''5.25.0''),
                        (''lastSavedIn'', ''5.25.0'')] None
      [Elem ''kinematics'' [(''status'', ''NOT_INITIALIZED''), (''validChecksum'', ''false'')] None
         (kin_children urp),
       Elem ''children'' [] None
         [Elem ''InitVariablesNode'' [] None [],
          Elem ''MainProgram'' [(''runOnlyOnce'', ''false''), (''InitVariablesNode'', ''true'')] None
            [Elem ''children'' [] None main_children]]]"

definition main_children_of :: "xml \<Rightarrow> xml list" where
  \<comment> \<open>\<open>root.find('children').find('MainProgram').find('children')\<close>, empty if a step is missing\<close>
  "main_children_of doc =
    (case find_child ''children'' doc of None \<Rightarrow> []
     | Some c \<Rightarrow> (case find_child ''MainProgram'' c of None \<Rightarrow> []
        | Some mp \<Rightarrow> (case find_child ''children'' mp of None \<Rightarrow> [] | Some kids \<Rightarrow> xml_children kids)))"

record urp_acc =
  main_children :: "xml list"
  mc :: nat
  ic :: nat
  wp :: nat
  movel_sem_joints :: nat

definition urp_acc0 :: urp_acc where
  "urp_acc0 = \<lparr>main_children = [], mc = 0, ic = 0, wp = 0, movel_sem_joints = 0\<rparr>"

definition urp_step ::
  "(string \<times> string) list \<Rightarrow> target list \<Rightarrow> ir_step \<Rightarrow> urp_acc \<Rightarrow> py_error + urp_acc" where
  \<comment> \<open>one round of the loop of \<open>ruki_para_urp\<close> (lines 192 to 219); the loop of
      \<open>converter_ruki_para_urp\<close> in Ruki\_C.py (lines 449 to 476) is the same text\<close>
  "urp_step urp ts step acc =
    (let st = st_type step in
     if st = ''MOVE_J'' \<or> st = ''MOVE_L'' then
       (case joints_or_zeros (lookup_target ts (st_target step)) of
          Inl e \<Rightarrow> Inl e
        | Inr js \<Rightarrow>
            let j = map deg2rad js;
                jtxt = join '', '' (map (fmt_f 6) j);
                motion = (if st = ''MOVE_J'' then ''MoveJ'' else ''MoveL'');
                wp' = wp acc + 1
            in Inr (acc\<lparr>main_children := main_children acc @ [move_elem urp motion (mc acc) wp' jtxt],
                         wp := wp', mc := mc acc + 1\<rparr>))
     else if st = ''SET_IO'' then
       Inr (acc\<lparr>main_children := main_children acc
                    @ [set_elem (ic acc) (io_index_or_0 step) (truthy (st_value step))],
                 ic := ic acc + 1\<rparr>)
     else Inr acc)"

fun urp_loop ::
  "(string \<times> string) list \<Rightarrow> target list \<Rightarrow> ir_step list \<Rightarrow> urp_acc \<Rightarrow> py_error + urp_acc" where
  "urp_loop urp ts [] acc = Inr acc"
| "urp_loop urp ts (step # rest) acc =
     (case urp_step urp ts step acc of Inl e \<Rightarrow> Inl e | Inr acc' \<Rightarrow> urp_loop urp ts rest acc')"

definition msg_no_robot :: string where
  \<comment> \<open>"Dados do robo nao encontrados", with the accented letters in UTF-8\<close>
  "msg_no_robot = ''Dados do rob'' @ [CHR 0xC3, CHR 0xB4] @ '' n'' @ [CHR 0xC3, CHR 0xA3]
                  @ ''o encontrados''"

definition msg_no_commands :: string where
  "msg_no_commands = ''Nenhum comando encontrado''"

definition failure :: "string \<Rightarrow> outcome" where
  \<comment> \<open>\<open>return False, text, None\<close>\<close>
  "failure text = \<lparr>success = False, message = text, out_path = None, written = []\<rparr>"

definition ruki_para_urp ::
  "(string \<Rightarrow> string \<Rightarrow> string) \<Rightarrow> ruki \<Rightarrow> robot option \<Rightarrow> string \<Rightarrow> py_error + outcome" where
  "ruki_para_urp os_path_join r robot_data pasta =
    (let nome = nome_of r in
     if falsy_robot robot_data then Inr (failure msg_no_robot)
     else
       let urp = urp_of robot_data in
       case urp_loop urp (ir_targets r) (ir_steps r) urp_acc0 of
         Inl e \<Rightarrow> Inl e
       | Inr acc \<Rightarrow>
           let root = urp_root nome urp (main_children acc);
               caminho = os_path_join pasta (nome @ ''.urp'')
           in Inr \<lparr> success = True,
                    message = ''Modelo: '' @ nome_completo_of robot_data @ nl @ ''Movimentos: ''
                              @ str_nat (mc acc) @ nl @ ''IOs: '' @ str_nat (ic acc) @ nl @ nl
                              @ ''Arquivo: '' @ caminho,
                    out_path = Some caminho,
                    written = [(caminho, UrpTree root)] \<rparr>)"

definition converter_ruki_para_urp ::
  "(string \<Rightarrow> string \<Rightarrow> string) \<Rightarrow> (string \<times> brand) list \<Rightarrow> ruki \<Rightarrow> string \<Rightarrow> string
     \<Rightarrow> string \<Rightarrow> py_error + outcome" where
  \<comment> \<open>the copy in Ruki\_C.py: the catalog lookup is its own, the message starts "Convertido!"\<close>
  "converter_ruki_para_urp os_path_join catalog r marca modelo pasta_saida =
    (let nome = nome_of r;
         robot_data = get_robot_data catalog marca modelo in
     if falsy_robot robot_data then Inr (failure msg_no_robot)
     else
       let urp = urp_of robot_data in
       case urp_loop urp (ir_targets r) (ir_steps r) urp_acc0 of
         Inl e \<Rightarrow> Inl e
       | Inr acc \<Rightarrow>
           let root = urp_root nome urp (main_children acc);
               caminho = os_path_join pasta_saida (nome @ ''.urp'')
           in Inr \<lparr> success = True,
                    message = ''Convertido!'' @ nl @ nl @ ''Modelo: '' @ nome_completo_of robot_data
                              @ nl @ ''Movimentos: '' @ str_nat (mc acc) @ nl @ ''IOs: ''
                              @ str_nat (ic acc) @ nl @ nl @ ''Arquivo: '' @ caminho,
                    out_path = Some caminho,
                    written = [(caminho, UrpTree root)] \<rparr>)"

section \<open>The script grammar parser: parse\_script\_moves\<close>

text \<open>
  The parser works line by line with six regular expressions. What the regular
  expression library and \<open>float\<close> find on a line is the input here: for each pattern the
  comma-separated pieces of its group when it matches, and a parameter \<open>py_float\<close> that
  reads one piece as a number (\<open>None\<close> where \<open>float\<close> raises). Everything after that (the
  order of the tests, the slices, the unit heuristic, the commands built) is modelled.
\<close>

record scan =
  blank :: bool
  starts_decl :: bool
  starts_hash :: bool
  has_joints_tag :: bool
  rx_joints_comment :: "string list option"
  rx_movej :: "string list option"
  rx_movel_p :: "string list option"
  rx_movel_pose_trans :: "string list option"
  rx_movel_array :: "string list option"
  rx_io :: "(nat \<times> bool) option"

datatype cmd =
    Move string "real list option" "real list field"
  | IO nat bool

fun floats :: "(string \<Rightarrow> real option) \<Rightarrow> string list \<Rightarrow> real list option" where
  \<comment> \<open>\<open>[float(v) for v in pieces]\<close>: \<open>None\<close> when one of them raises\<close>
  "floats py_float [] = Some []"
| "floats py_float (v # vs) =
     (case py_float v of None \<Rightarrow> None
      | Some x \<Rightarrow> (case floats py_float vs of None \<Rightarrow> None | Some xs \<Rightarrow> Some (x # xs)))"

definition rstrip_paren :: "string \<Rightarrow> string" where
  \<comment> \<open>\<open>v.rstrip(')')\<close>\<close>
  "rstrip_paren v = rev (dropWhile (\<lambda>c. c = CHR '')'') (rev v))"

definition radians_to_degrees :: "real list \<Rightarrow> real list" where
  \<comment> \<open>\<open>if all(abs(v) < 7 for v in vals): vals = [rad2deg(v) for v in vals]\<close>, the unit
      heuristic as it stands in \<open>parse_script_moves\<close> (twice) and in
      \<open>converter_script_para_robodk\<close>\<close>
  "radians_to_degrees vals = (if list_all (\<lambda>v. \<bar>v\<bar> < 7) vals then map rad2deg vals else vals)"

definition joints_from_comment_of :: "(string \<Rightarrow> real option) \<Rightarrow> scan \<Rightarrow> real list option" where
  \<comment> \<open>lines 86 to 95\<close>
  "joints_from_comment_of py_float lin =
    (case rx_joints_comment lin of
       None \<Rightarrow> None
     | Some pieces \<Rightarrow>
        (case floats py_float (map rstrip_paren pieces) of
           None \<Rightarrow> None
         | Some vs \<Rightarrow> Some (radians_to_degrees (take 6 vs))))"

definition nonempty :: "real list option \<Rightarrow> bool" where
  \<comment> \<open>the truth value of a list or \<open>None\<close>\<close>
  "nonempty v = (case v of None \<Rightarrow> False | Some xs \<Rightarrow> xs \<noteq> [])"

definition first_match :: "string list option \<Rightarrow> string list option \<Rightarrow> string list option" where
  \<comment> \<open>\<open>if not m: m = ...\<close>\<close>
  "first_match a b = (case a of None \<Rightarrow> b | Some x \<Rightarrow> Some x)"

definition parse_line :: "(string \<Rightarrow> real option) \<Rightarrow> scan \<Rightarrow> cmd list" where
  \<comment> \<open>the commands one line adds (the body of the loop, lines 80 to 130)\<close>
  "parse_line py_float lin =
    (if blank lin \<or> starts_decl lin then []
     else if starts_hash lin \<and> \<not> has_joints_tag lin then []
     else
       let joints_from_comment = joints_from_comment_of py_float lin in
       case rx_movej lin of
         Some pieces \<Rightarrow>
           (case floats py_float pieces of
              None \<Rightarrow> []
            | Some vs \<Rightarrow>
                let vals = radians_to_degrees (take 6 vs)
                in [Move ''MoveJ''
                      (Some (if nonempty joints_from_comment then the joints_from_comment else vals))
                      Absent])
       | None \<Rightarrow>
           (case first_match (first_match (rx_movel_p lin) (rx_movel_pose_trans lin))
                   (rx_movel_array lin) of
              Some pieces \<Rightarrow>
                (let pose_vals = map_option (take 6) (floats py_float pieces) in
                 if nonempty joints_from_comment
                 then [Move ''MoveL'' joints_from_comment (nullable pose_vals)]
                 else if nonempty pose_vals then [Move ''MoveL'' None (nullable pose_vals)]
                 else [])
            | None \<Rightarrow>
                (case rx_io lin of
                   Some (idx, on) \<Rightarrow> [IO idx on]
                 | None \<Rightarrow> [])))"

definition parse_script_moves :: "(string \<Rightarrow> real option) \<Rightarrow> scan list \<Rightarrow> cmd list" where
  "parse_script_moves py_float lins = concat (map (parse_line py_float) lins)"

definition script_urp_step :: "(string \<times> string) list \<Rightarrow> cmd \<Rightarrow> urp_acc \<Rightarrow> urp_acc" where
  \<comment> \<open>one round of the loop of \<open>script_para_urp\<close> (lines 261 to 292)\<close>
  "script_urp_step urp c acc =
    (case c of
       Move tipo joints pose \<Rightarrow>
         (case joints of
            None \<Rightarrow> acc\<lparr>movel_sem_joints := movel_sem_joints acc + 1\<rparr>
          | Some js \<Rightarrow>
              let wp' = wp acc + 1;
                  j = map deg2rad js
              in acc\<lparr>main_children := main_children acc
                        @ [move_elem urp tipo (mc acc) wp' (join '', '' (map (fmt_f 6) j))],
                     wp := wp', mc := mc acc + 1\<rparr>)
     | IO idx on \<Rightarrow>
         acc\<lparr>main_children := main_children acc @ [set_elem (ic acc) (str_nat idx) on],
             ic := ic acc + 1\<rparr>)"

definition script_urp_loop :: "(string \<times> string) list \<Rightarrow> cmd list \<Rightarrow> urp_acc \<Rightarrow> urp_acc" where
  "script_urp_loop urp cmds acc = foldl (\<lambda>a c. script_urp_step urp c a) acc cmds"

definition skipped_note :: "nat \<Rightarrow> string" where
  \<comment> \<open>the warning appended to the message; its first character is U+26A0 in UTF-8\<close>
  "skipped_note n = nl @ nl @ [CHR 0xE2, CHR 0x9A, CHR 0xA0] @ '' '' @ str_nat n
     @ '' MoveL ignorados (sem #JOINTS)'' @ nl
     @ ''Use .script do RoboDK com output joints+cartesian''"

definition script_para_urp ::
  "(string \<Rightarrow> string \<Rightarrow> string) \<Rightarrow> (string \<Rightarrow> real option) \<Rightarrow> scan list \<Rightarrow> string
     \<Rightarrow> robot option \<Rightarrow> string \<Rightarrow> outcome" where
  \<comment> \<open>\<open>script_para_urp(arquivo, robot_data, pasta)\<close>: \<open>lins\<close> are the lines of the file,
      \<open>nome\<close> the base name of the file without its extension\<close>
  "script_para_urp os_path_join py_float lins nome robot_data pasta =
    (if falsy_robot robot_data then failure msg_no_robot
     else
       let urp = urp_of robot_data;
           comandos = parse_script_moves py_float lins;
           acc = script_urp_loop urp comandos urp_acc0
       in if mc acc = 0 \<and> ic acc = 0 then failure msg_no_commands
          else
            let root = urp_root nome urp (main_children acc);
                caminho = os_path_join pasta (nome @ ''.urp'');
                msg = ''Movimentos: '' @ str_nat (mc acc) @ nl @ ''IOs: '' @ str_nat (ic acc);
                msg' = (if movel_sem_joints acc > 0 then msg @ skipped_note (movel_sem_joints acc)
                        else msg)
            in \<lparr> success = True,
                 message = msg' @ nl @ nl @ ''Arquivo: '' @ caminho,
                 out_path = Some caminho,
                 written = [(caminho, UrpTree root)] \<rparr>)"

definition robodk_move_code :: "(string \<Rightarrow> real option) \<Rightarrow> string \<Rightarrow> string list \<Rightarrow> string option" where
  \<comment> \<open>Ruki\_C.py \<open>converter_script_para_robodk\<close>, lines 594 to 599: the text a matched move
      adds to the program, \<open>None\<close> when \<open>float\<close> raises (the line is then passed over)\<close>
  "robodk_move_code py_float tipo pieces =
    (case floats py_float pieces of
       None \<Rightarrow> None
     | Some vs \<Rightarrow>
        let vals = radians_to_degrees (take 6 vs)
        in Some (''robot.'' @ tipo @ ''(['' @ join '', '' (map (fmt_f 4) vals) @ ''])'' @ nl))"

section \<open>Model detection: detectar\_modelo (emitter) and detectar\_modelo\_script (Ruki\_C.py)\<close>

text \<open>
  Texts are ASCII here: a word character of a regular expression is a letter, a digit or
  the underscore, and ignoring case compares the lower-case forms of the letters.
  \<open>re.escape\<close> makes the model key a literal, so a search is a search for a substring.
\<close>

definition is_word_char :: "char \<Rightarrow> bool" where
  "is_word_char c = (is_alnum c \<or> c = CHR ''_'')"

definition lower_char :: "char \<Rightarrow> char" where
  "lower_char c =
     (let n = (of_char c :: nat) in if 65 \<le> n \<and> n \<le> 90 then char_of (n + 32) else c)"

definition upper_char :: "char \<Rightarrow> char" where
  "upper_char c =
     (let n = (of_char c :: nat) in if 97 \<le> n \<and> n \<le> 122 then char_of (n - 32) else c)"

definition match_at :: "bool \<Rightarrow> string \<Rightarrow> string \<Rightarrow> nat \<Rightarrow> bool" where
  \<comment> \<open>the literal \<open>pat\<close> stands at position \<open>i\<close> of the text, ignoring case when \<open>ic\<close> is set\<close>
  "match_at ignore_case pat txt i =
     (i + length pat \<le> length txt \<and>
      (if ignore_case then map lower_char (take (length pat) (drop i txt)) = map lower_char pat
       else take (length pat) (drop i txt) = pat))"

definition word_boundary :: "string \<Rightarrow> nat \<Rightarrow> bool" where
  \<comment> \<open>\<open>\b\<close> at position \<open>p\<close>: exactly one of the characters before and after is a word character\<close>
  "word_boundary txt p =
     ((0 < p \<and> p \<le> length txt \<and> is_word_char (txt ! (p - 1)))
       \<noteq> (p < length txt \<and> is_word_char (txt ! p)))"

definition search_plain :: "bool \<Rightarrow> string \<Rightarrow> string \<Rightarrow> bool" where
  \<comment> \<open>\<open>re.search(re.escape(pat), txt)\<close>, with \<open>re.IGNORECASE\<close> when \<open>ic\<close> is set\<close>
  "search_plain ignore_case pat txt =
     list_ex (match_at ignore_case pat txt) [0..<Suc (length txt)]"

definition search_word :: "string \<Rightarrow> string \<Rightarrow> bool" where
  \<comment> \<open>\<open>re.search(r'\b' + re.escape(pat) + r'\b', txt, re.IGNORECASE)\<close>\<close>
  "search_word pat txt =
     list_ex (\<lambda>i. word_boundary txt i \<and> match_at True pat txt i
                  \<and> word_boundary txt (i + length pat)) [0..<Suc (length txt)]"

datatype source_file =
    RukiFile string
  | TextFile "string list"
  | Unreadable

definition detectar_modelo :: "source_file \<Rightarrow> (string \<times> robot) list \<Rightarrow> string option" where
  \<comment> \<open>the emitter's \<open>detectar_modelo(arquivo, robos)\<close>: the file is an IR document (its robot
      name, empty when the key is absent), a text file (its lines), or one that cannot be
      read or parsed, where the exception is swallowed\<close>
  "detectar_modelo arquivo robos =
    (case arquivo of
       RukiFile nome \<Rightarrow>
         find (\<lambda>m. search_plain False m nome
                    \<or> search_plain False (map upper_char m) (map upper_char nome)) (map fst robos)
     | TextFile lines \<Rightarrow>
         (let texto = join nl (take 100 lines)
          in find (\<lambda>m. search_word m texto) (map fst robos))
     | Unreadable \<Rightarrow> None)"



section \<open>Concrete inputs and the predicates of the statements\<close>

text \<open>The texts of six zero angles, as the archive and the script write them.\<close>

definition zeros_text :: string where
  "zeros_text = ''0.000000, 0.000000, 0.000000, 0.000000, 0.000000, 0.000000''"



definition demo_move_step :: ir_step where
  "demo_move_step = \<lparr>st_type = ''MOVE_J'', st_target = Some ''T001'', st_io_index = None,
     st_value = PNone, st_is_comment = PNone, st_text = None\<rparr>"


text \<open>The three kinds of parsed command, as the archive loop tells them apart.\<close>

definition with_joints :: "cmd \<Rightarrow> bool" where
  "with_joints c = (case c of Move t (Some js) p \<Rightarrow> True | _ \<Rightarrow> False)"

definition without_joints :: "cmd \<Rightarrow> bool" where
  "without_joints c = (case c of Move t None p \<Rightarrow> True | _ \<Rightarrow> False)"

definition is_io :: "cmd \<Rightarrow> bool" where
  "is_io c = (case c of IO i b \<Rightarrow> True | _ \<Rightarrow> False)"

text \<open>
  Concrete inputs: a path join, a reading of the few number texts used below that agrees
  with \<open>float\<close> on them, a catalog entry, scanned lines, and IR documents.
\<close>

definition demo_join :: "string \<Rightarrow> string \<Rightarrow> string" where
  "demo_join a b = a @ ''/'' @ b"

definition demo_float :: "string \<Rightarrow> real option" where
  "demo_float = map_of [(''0'', 0), (''0.1'', 1 / 10), (''0.2'', 2 / 10), (''0.3'', 3 / 10)]"

definition demo_robot :: robot where
  "demo_robot = \<lparr>rb_urp = Some [], rb_nome_completo = Some ''UR10e'', rb_other_keys = []\<rparr>"

definition no_match :: scan where
  "no_match = \<lparr>blank = False, starts_decl = False, starts_hash = False, has_joints_tag = False,
     rx_joints_comment = None, rx_movej = None, rx_movel_p = None, rx_movel_pose_trans = None,
     rx_movel_array = None, rx_io = None\<rparr>"

definition pose_only_line :: scan where
  \<comment> \<open>the line \<open>movel(p[0.1,0.2,0.3,0,0,0], a=1.2, v=0.25)\<close>\<close>
  "pose_only_line = no_match\<lparr>rx_movel_p := Some [''0.1'', ''0.2'', ''0.3'', ''0'', ''0'', ''0''],
     rx_movel_pose_trans := Some [''0.1'', ''0.2'', ''0.3'', ''0'', ''0'', ''0'']\<rparr>"

definition demo_ini :: ir_initial where
  "demo_ini = \<lparr>ini_speed_linear = None, ini_speed_joints = None, ini_accel_linear = None,
     ini_accel_joints = None, ini_rounding = None\<rparr>"

definition empty_ir :: ruki where
  "empty_ir = \<lparr>program_name = Some ''prog'', ir_initial_state = demo_ini, ir_targets = [],
     ir_steps = []\<rparr>"

definition demo_movel_step :: ir_step where
  "demo_movel_step = \<lparr>st_type = ''MOVE_L'', st_target = Some ''T001'', st_io_index = None,
     st_value = PNone, st_is_comment = PNone, st_text = None\<rparr>"

text \<open>Reading the reference attributes back from an archive document.\<close>

definition is_move :: "xml \<Rightarrow> bool" where
  "is_move e = (xml_tag e = ''Move'')"

definition is_set :: "xml \<Rightarrow> bool" where
  "is_set e = (xml_tag e = ''Set'')"

definition feature_attrib :: "xml \<Rightarrow> (string \<times> string) list" where
  \<comment> \<open>the attributes of the element's \<open>feature\<close> child\<close>
  "feature_attrib e = (case find_child ''feature'' e of None \<Rightarrow> [] | Some f \<Rightarrow> xml_attrib f)"

definition pin_attrib :: "xml \<Rightarrow> (string \<times> string) list" where
  \<comment> \<open>the attributes of the element's \<open>pin\<close> child\<close>
  "pin_attrib e = (case find_child ''pin'' e of None \<Rightarrow> [] | Some f \<Rightarrow> xml_attrib f)"

definition move_refs :: "xml \<Rightarrow> (string \<times> string) list list" where
  "move_refs doc = map feature_attrib (filter is_move (main_children_of doc))"

definition pin_refs :: "xml \<Rightarrow> (string \<times> string) list list" where
  "pin_refs doc = map pin_attrib (filter is_set (main_children_of doc))"

definition move_first :: "(string \<times> string) list" where
  "move_first = [(''class'', ''GeomFeatureReference''), (''referencedName'', ''Joint_0_name'')]"

definition move_later :: "(string \<times> string) list" where
  "move_later = [(''class'', ''GeomFeatureReference''), (''reference'', ''../../Move/feature'')]"

definition pin_first :: "string \<Rightarrow> (string \<times> string) list" where
  "pin_first idx = [(''referencedName'', ''digital_out['' @ idx @ '']'')]"

definition pin_later :: "(string \<times> string) list" where
  "pin_later = [(''reference'', ''../../Set/pin'')]"

fun first_then :: "('a \<Rightarrow> 'b) \<Rightarrow> 'b \<Rightarrow> 'a list \<Rightarrow> 'b list" where
  \<comment> \<open>the first element through \<open>f\<close>, every later one replaced by \<open>r\<close>\<close>
  "first_then f r [] = []"
| "first_then f r (x # xs) = f x # map (\<lambda>_. r) xs"

definition is_move_step :: "ir_step \<Rightarrow> bool" where
  "is_move_step s = (st_type s = ''MOVE_J'' \<or> st_type s = ''MOVE_L'')"

definition is_io_step :: "ir_step \<Rightarrow> bool" where
  "is_io_step s = (st_type s = ''SET_IO'')"

definition io_text :: "cmd \<Rightarrow> string" where
  "io_text c = (case c of IO i b \<Rightarrow> str_nat i | _ \<Rightarrow> '''')"

definition archive_docs :: "outcome \<Rightarrow> xml list" where
  \<comment> \<open>the archive documents among the files written\<close>
  "archive_docs out = concat (map (\<lambda>(p, c). case c of UrpTree d \<Rightarrow> [d] | _ \<Rightarrow> []) (written out))"

text \<open>The invariant of the archive loops: counters and reference attributes follow the
  moves and IO indices emitted so far.\<close>

definition refs_inv :: "urp_acc \<Rightarrow> 'a list \<Rightarrow> string list \<Rightarrow> bool" where
  "refs_inv acc ms idxs =
    (map feature_attrib (filter is_move (main_children acc)) = first_then (\<lambda>_. move_first) move_later ms
     \<and> mc acc = length ms
     \<and> map pin_attrib (filter is_set (main_children acc)) = first_then pin_first pin_later idxs
     \<and> ic acc = length idxs)"

text \<open>A script and an IR document with two moves and IO writes, and the archives they give.\<close>

definition movej_zero_line :: scan where
  \<comment> \<open>the line \<open>movej([0,0,0,0,0,0], a=1.4, v=1.05)\<close>\<close>
  "movej_zero_line = no_match\<lparr>rx_movej := Some [''0'', ''0'', ''0'', ''0'', ''0'', ''0'']\<rparr>"

definition io_line :: "nat \<Rightarrow> bool \<Rightarrow> scan" where
  \<comment> \<open>a line \<open>set_standard_digital_out(i, True)\<close> or \<open>(i, False)\<close>\<close>
  "io_line i on = no_match\<lparr>rx_io := Some (i, on)\<rparr>"

definition demo_lines :: "scan list" where
  "demo_lines = [movej_zero_line, io_line 1 True, movej_zero_line, io_line 2 False]"

definition demo_io_step :: ir_step where
  "demo_io_step = \<lparr>st_type = ''SET_IO'', st_target = None, st_io_index = Some (IoInt 1),
     st_value = PBool True, st_is_comment = PNone, st_text = None\<rparr>"

definition demo_ir :: ruki where
  "demo_ir = empty_ir\<lparr>ir_steps := [demo_move_step, demo_io_step, demo_movel_step]\<rparr>"

definition demo_catalog :: "(string \<times> brand) list" where
  "demo_catalog = [(''Universal Robots'',
     \<lparr>br_modelo_padrao = Some ''UR10e'', br_modelos_ordem = [''UR10e''], br_robos = [(''UR10e'', demo_robot)]\<rparr>)]"

definition demo_script_doc :: xml where
  "demo_script_doc = urp_root ''prog'' []
     [move_elem [] ''MoveJ'' 0 1 zeros_text, set_elem 0 ''1'' True,
      move_elem [] ''MoveJ'' 1 2 zeros_text, set_elem 1 ''2'' False]"

definition demo_ir_doc :: xml where
  "demo_ir_doc = urp_root ''prog'' []
     [move_elem [] ''MoveJ'' 0 1 zeros_text, set_elem 0 ''1'' True,
      move_elem [] ''MoveL'' 1 2 zeros_text]"

definition demo_ir_outcome :: "string \<Rightarrow> outcome" where
  "demo_ir_outcome prefix = \<lparr>success = True,
     message = prefix @ ''Modelo: UR10e'' @ nl @ ''Movimentos: 2'' @ nl @ ''IOs: 1'' @ nl @ nl
               @ ''Arquivo: out/prog.urp'',
     out_path = Some ''out/prog.urp'',
     written = [(''out/prog.urp'', UrpTree demo_ir_doc)]\<rparr>"

text \<open>The inputs of the unit heuristic: the two joint lists of the specification, as
  number texts and as values, and a reading of those texts that agrees with \<open>float\<close>.\<close>

definition skipped_line :: "scan \<Rightarrow> bool" where
  \<comment> \<open>the line is passed over before any pattern is tried\<close>
  "skipped_line lin = (blank lin \<or> starts_decl lin \<or> (starts_hash lin \<and> \<not> has_joints_tag lin))"

definition joint_float :: "string \<Rightarrow> real option" where
  "joint_float = map_of [(''0.1'', 1 / 10), (''-0.2'', - (2 / 10)), (''0.3'', 3 / 10), (''0.0'', 0),
     (''1.5'', 15 / 10), (''-1.5'', - (15 / 10)), (''45'', 45), (''-90'', - 90), (''0'', 0),
     (''90'', 90), (''180'', 180)]"

definition rad_pieces :: "string list" where
  "rad_pieces = [''0.1'', ''-0.2'', ''0.3'', ''0.0'', ''1.5'', ''-1.5'']"

definition deg_pieces :: "string list" where
  "deg_pieces = [''45'', ''-90'', ''0'', ''90'', ''0'', ''180'']"

definition rad_values :: "real list" where
  "rad_values = [1 / 10, - (2 / 10), 3 / 10, 0, 15 / 10, - (15 / 10)]"

definition deg_values :: "real list" where
  "deg_values = [45, - 90, 0, 90, 0, 180]"

definition rad_line :: scan where
  \<comment> \<open>the line \<open>movej([0.1,-0.2,0.3,0.0,1.5,-1.5], a=1.4, v=1.05)\<close>\<close>
  "rad_line = no_match\<lparr>rx_movej := Some rad_pieces\<rparr>"

definition deg_comment_line :: scan where
  \<comment> \<open>the line \<open>#JOINTS:[45,-90,0,90,0,180]\<close>\<close>
  "deg_comment_line = no_match\<lparr>starts_hash := True, has_joints_tag := True,
     rx_joints_comment := Some deg_pieces\<rparr>"

text \<open>Catalogs for the detection examples.\<close>

definition ur_models :: "(string \<times> robot) list" where
  "ur_models = [(''UR10e'', demo_robot), (''UR20'', demo_robot), (''UR30'', demo_robot)]"


section \<open>The rotation round trip\<close>











section \<open>Target ids are distinct\<close>

lemma digit_val_digit_char: "d < 10 \<Longrightarrow> digit_val (digit_char d) = d"
proof -
  assume "d < 10"
  then have "d = 0 \<or> d = 1 \<or> d = 2 \<or> d = 3 \<or> d = 4 \<or> d = 5 \<or> d = 6 \<or> d = 7 \<or> d = 8 \<or> d = 9"
    by arith
  then show ?thesis
    by (elim disjE) (simp_all add: digit_val_def digit_char_def)
qed

lemma nat_of_str_append:
  "nat_of_str (s @ [c]) = 10 * nat_of_str s + digit_val c"
  by (simp add: nat_of_str_def)

lemma nat_of_str_str_nat: "nat_of_str (str_nat n) = n"
proof (induction n rule: str_nat.induct)
  case (1 n)
  show ?case
  proof (cases "n < 10")
    case True
    then show ?thesis
      by (subst str_nat.simps) (simp add: nat_of_str_def digit_val_digit_char)
  next
    case False
    then have "nat_of_str (str_nat (n div 10)) = n div 10" using 1 by simp
    with False show ?thesis
      by (subst str_nat.simps) (simp add: nat_of_str_append digit_val_digit_char)
  qed
qed

lemma nat_of_str_zeros: "foldl (\<lambda>a c. 10 * a + digit_val c) 0 (replicate k CHR ''0'' @ s) = foldl (\<lambda>a c. 10 * a + digit_val c) 0 s"
  by (induction k) (simp_all add: digit_val_def)

lemma nat_of_str_zfill: "nat_of_str (zfill w s) = nat_of_str s"
  by (simp add: zfill_def nat_of_str_def nat_of_str_zeros del: foldl_append)

lemma target_id_of_inj: "target_id_of m = target_id_of n \<Longrightarrow> m = n"
proof -
  assume "target_id_of m = target_id_of n"
  then have "nat_of_str (zfill 3 (str_nat m)) = nat_of_str (zfill 3 (str_nat n))"
    by (simp add: target_id_of_def)
  then show ?thesis by (simp add: nat_of_str_zfill nat_of_str_str_nat)
qed

section \<open>The builder: step indices and target ids\<close>

lemma map_of_fold_kwargs:
  "k \<notin> fst ` set kwargs \<Longrightarrow>
   map_of (fold (\<lambda>(k, v) d. if private_key k then d else AList.update k v d) kwargs d0) k = map_of d0 k"
  by (induction kwargs arbitrary: d0) (auto simp: update_conv')

lemma add_step_steps:
  "''index'' \<notin> fst ` set kwargs \<Longrightarrow>
   \<exists>s. steps (add_step ty kwargs b) = steps b @ [s] \<and> step_index s = Some (PInt (int (instruction_index b + 1)))"
  by (simp add: add_step_def Let_def step_index_def update_conv' map_of_fold_kwargs)

lemma add_step_fields [simp]:
  "instruction_index (add_step ty kwargs b) = instruction_index b + 1"
  "targets (add_step ty kwargs b) = targets b"
  "target_counter (add_step ty kwargs b) = target_counter b"
  "length (steps (add_step ty kwargs b)) = length (steps b) + 1"
  by (simp_all add: add_step_def Let_def)

lemma add_target_fields [simp]:
  "instruction_index (snd (add_target h p j c n b)) = instruction_index b"
  "steps (snd (add_target h p j c n b)) = steps b"
  "target_counter (snd (add_target h p j c n b)) = target_counter b + 1"
  "fst (add_target h p j c n b) = target_id_of (target_counter b + 1)"
  "map tg_id (targets (snd (add_target h p j c n b))) = map tg_id (targets b) @ [target_id_of (target_counter b + 1)]"
  by (simp_all add: add_target_def Let_def)

lemma get_io_ref_fields [simp]:
  "instruction_index (snd (get_io_ref v t b)) = instruction_index b"
  "steps (snd (get_io_ref v t b)) = steps b"
  "target_counter (snd (get_io_ref v t b)) = target_counter b"
  "targets (snd (get_io_ref v t b)) = targets b"
  by (simp_all add: get_io_ref_def Let_def split: option.splits)

lemma idx_inv_add_step:
  assumes "idx_inv b" "''index'' \<notin> fst ` set kwargs"
  shows "idx_inv (add_step ty kwargs b)"
proof -
  obtain s where s: "steps (add_step ty kwargs b) = steps b @ [s]"
    "step_index s = Some (PInt (int (instruction_index b + 1)))"
    using add_step_steps[OF assms(2)] by blast
  show ?thesis using assms(1) s by (simp add: idx_inv_def)
qed

lemma idx_inv_upd [simp]:
  "idx_inv (b\<lparr>TargetName := n\<rparr>) = idx_inv b"
  "idx_inv (b\<lparr>TargetNameVia := n\<rparr>) = idx_inv b"
  "idx_inv (b\<lparr>PoseTrack := p\<rparr>) = idx_inv b"
  "idx_inv (b\<lparr>PoseTurntable := p\<rparr>) = idx_inv b"
  "idx_inv (b\<lparr>frames := f\<rparr>) = idx_inv b"
  "idx_inv (b\<lparr>tools := f\<rparr>) = idx_inv b"
  "idx_inv (snd (add_target h po j c nm b)) = idx_inv b"
  "idx_inv (snd (get_io_ref v t b)) = idx_inv b"
  "idx_inv (ProgStart h pn b) = idx_inv b"
  "idx_inv (ProgFinish pn b) = idx_inv b"
  by (simp_all add: idx_inv_def ProgStart_def ProgFinish_def Let_def split: option.splits)

lemma idx_inv_invoke: "idx_inv b \<Longrightarrow> idx_inv (invoke h c b)"
  by (cases c)
     (simp_all add: MoveJ_def MoveL_def MoveC_def setFrame_def setTool_def setSpeed_def
        setSpeedJoints_def setAcceleration_def setAccelerationJoints_def setZoneData_def
        setDO_def setAO_def waitDI_def Pause_def RunCode_def RunMessage_def
        Let_def split_def idx_inv_add_step)

lemma idx_inv_foldl: "idx_inv b \<Longrightarrow> idx_inv (foldl (\<lambda>b c. invoke h c b) b cbs)"
  by (induction cbs arbitrary: b) (simp_all add: idx_inv_invoke)

lemma idx_inv_init: "idx_inv init_builder"
  by (simp add: idx_inv_def init_builder_def)

text \<open>
  Claim C8. Whatever sequence of callbacks (moves, frame and tool changes, speed,
  acceleration and rounding settings, IO, pauses, code and messages, program starts and
  ends) and attribute assignments the host performs on a fresh post processor, the
  \<open>index\<close> entries of the step list are 1, 2, 3, ... in list order.
\<close>

theorem step_indices_sequential:
  "map step_index (steps (run h cbs)) =
     map (\<lambda>i. Some (PInt (int i))) [1..<Suc (length (steps (run h cbs)))]"
  using idx_inv_foldl[OF idx_inv_init, of h cbs] by (simp add: idx_inv_def run_def)

lemma ids_inv_upd [simp]:
  "ids_inv (b\<lparr>TargetName := n\<rparr>) = ids_inv b"
  "ids_inv (b\<lparr>TargetNameVia := n\<rparr>) = ids_inv b"
  "ids_inv (b\<lparr>PoseTrack := p\<rparr>) = ids_inv b"
  "ids_inv (b\<lparr>PoseTurntable := p\<rparr>) = ids_inv b"
  "ids_inv (b\<lparr>frames := f\<rparr>) = ids_inv b"
  "ids_inv (b\<lparr>tools := f\<rparr>) = ids_inv b"
  "ids_inv (add_step ty kw b) = ids_inv b"
  "ids_inv (snd (get_io_ref v t b)) = ids_inv b"
  "ids_inv (ProgStart h pn b) = ids_inv b"
  "ids_inv (ProgFinish pn b) = ids_inv b"
  by (simp_all add: ids_inv_def ProgStart_def ProgFinish_def Let_def split: option.splits)

lemma ids_inv_add_target: "ids_inv b \<Longrightarrow> ids_inv (snd (add_target h po j c nm b))"
  by (simp add: ids_inv_def)

lemma ids_inv_invoke: "ids_inv b \<Longrightarrow> ids_inv (invoke h c b)"
  by (cases c)
     (simp_all add: MoveJ_def MoveL_def MoveC_def setFrame_def setTool_def setSpeed_def
        setSpeedJoints_def setAcceleration_def setAccelerationJoints_def setZoneData_def
        setDO_def setAO_def waitDI_def Pause_def RunCode_def RunMessage_def
        Let_def split_def ids_inv_add_target)

lemma ids_inv_foldl: "ids_inv b \<Longrightarrow> ids_inv (foldl (\<lambda>b c. invoke h c b) b cbs)"
  by (induction cbs arbitrary: b) (simp_all add: ids_inv_invoke)

lemma ids_inv_run: "ids_inv (run h cbs)"
  unfolding run_def by (rule ids_inv_foldl) (simp add: ids_inv_def init_builder_def)

lemma ids_inv_fresh: "ids_inv b \<Longrightarrow> target_id_of (Suc (target_counter b)) \<notin> set (map tg_id (targets b))"
proof
  assume inv: "ids_inv b" and "target_id_of (Suc (target_counter b)) \<in> set (map tg_id (targets b))"
  then have "target_id_of (Suc (target_counter b)) \<in> target_id_of ` set [1..<Suc (target_counter b)]"
    by (simp add: ids_inv_def)
  then obtain k where k: "k \<in> set [1..<Suc (target_counter b)]"
      "target_id_of (Suc (target_counter b)) = target_id_of k"
    by blast
  from k(2) have "Suc (target_counter b) = k" by (rule target_id_of_inj)
  with k(1) show False by simp
qed

text \<open>
  Claim C1, as the code has it. \<open>_add_target\<close> has no failure path: in every state the
  builder can reach, and for every pose, joint list, configuration and name (a null pose
  together with null joints included), it returns the id \<open>T<counter+1>\<close>, which no target
  of the list carries yet, and appends exactly one target with that id, holding the given
  joints and the converted pose (null where none was given).
\<close>

theorem add_target_never_fails:
  "fst (add_target h pose joints conf_RLF name (run h cbs))
      = target_id_of (Suc (target_counter (run h cbs)))
   \<and> fst (add_target h pose joints conf_RLF name (run h cbs))
      \<notin> set (map tg_id (targets (run h cbs)))
   \<and> (\<exists>t. targets (snd (add_target h pose joints conf_RLF name (run h cbs)))
            = targets (run h cbs) @ [t]
          \<and> tg_id t = fst (add_target h pose joints conf_RLF name (run h cbs))
          \<and> tg_joints t = nullable joints
          \<and> tg_pose t = nullable (pose_to_xyzrpw_deg h pose))"
proof -
  let ?b = "run h cbs"
  have fresh: "target_id_of (Suc (target_counter ?b)) \<notin> set (map tg_id (targets ?b))"
    by (rule ids_inv_fresh[OF ids_inv_run])
  have jl: "joints_to_list joints = joints"
    by (simp add: joints_to_list_def split: option.splits)
  have ex: "\<exists>t. targets (snd (add_target h pose joints conf_RLF name ?b)) = targets ?b @ [t]
          \<and> tg_id t = target_id_of (Suc (target_counter ?b))
          \<and> tg_joints t = nullable joints
          \<and> tg_pose t = nullable (pose_to_xyzrpw_deg h pose)"
    by (simp add: add_target_def Let_def jl)
  show ?thesis using fresh ex by simp
qed

lemma target_id_of_1: "target_id_of (Suc 0) = ''T001''"
  by (simp add: target_id_of_def zfill_def str_nat.simps digit_char_def eval_nat_numeral)

lemma init_builder_fields [simp]:
  "targets init_builder = []" "target_counter init_builder = 0"
  "steps init_builder = []" "instruction_index init_builder = 0"
  by (simp_all add: init_builder_def)

text \<open>
  Claim C1 as stated fails: on a fresh builder, \<open>_add_target(None, None, None)\<close> returns
  the id \<open>T001\<close> and the target list then holds one target whose joints and pose are both
  null.
\<close>

theorem add_target_null_null_appends:
  "fst (add_target mock_host None None None None init_builder) = ''T001''
   \<and> map tg_id (targets (snd (add_target mock_host None None None None init_builder))) = [''T001'']
   \<and> map tg_joints (targets (snd (add_target mock_host None None None None init_builder))) = [Null]
   \<and> map tg_pose (targets (snd (add_target mock_host None None None None init_builder))) = [Null]"
  by (simp add: add_target_def Let_def joints_to_list_def pose_to_xyzrpw_deg_def
      nullable_def target_id_of_1)

section \<open>The pose extraction follows the three branches\<close>











section \<open>Moves without joint data\<close>

lemma replicate_5: "replicate 5 x = [x, x, x, x, x]"
  by (simp add: eval_nat_numeral)

lemma str_nat_0: "str_nat 0 = ''0''"
  by (simp add: str_nat.simps digit_char_def)

lemma round_half_even_0: "round_half_even 0 = 0"
  by (simp add: round_half_even_def)

lemma fmt6_zero: "fmt_f 6 0 = ''0.000000''"
  by (simp add: fmt_f_def round_half_even_0 str_nat_0 zfill_def replicate_5)

lemma deg2rad_zero: "deg2rad 0 = 0"
  by (simp add: deg2rad_def)

lemma replicate_6: "replicate 6 x = [x, x, x, x, x, x]"
  by (simp add: eval_nat_numeral)

lemma join_zeros: "join '', '' (map (fmt_f 6) (map deg2rad (replicate 6 0))) = zeros_text"
  unfolding replicate_6 by (simp add: deg2rad_zero fmt6_zero zeros_text_def)





section \<open>Partial data and empty results\<close>

lemma script_urp_step_counts:
  "mc (script_urp_step urp c acc) = mc acc + (if with_joints c then 1 else 0)"
  "ic (script_urp_step urp c acc) = ic acc + (if is_io c then 1 else 0)"
  "movel_sem_joints (script_urp_step urp c acc)
     = movel_sem_joints acc + (if without_joints c then 1 else 0)"
  by (simp_all add: script_urp_step_def with_joints_def without_joints_def is_io_def Let_def
      split: cmd.splits option.splits)

lemma script_urp_loop_counts:
  "mc (script_urp_loop urp cmds acc) = mc acc + length (filter with_joints cmds)
   \<and> ic (script_urp_loop urp cmds acc) = ic acc + length (filter is_io cmds)
   \<and> movel_sem_joints (script_urp_loop urp cmds acc)
       = movel_sem_joints acc + length (filter without_joints cmds)"
  unfolding script_urp_loop_def
  by (induction cmds arbitrary: acc) (simp_all add: script_urp_step_counts)

lemma script_urp_loop_counts0:
  "mc (script_urp_loop urp cmds urp_acc0) = length (filter with_joints cmds)"
  "ic (script_urp_loop urp cmds urp_acc0) = length (filter is_io cmds)"
  "movel_sem_joints (script_urp_loop urp cmds urp_acc0) = length (filter without_joints cmds)"
  using script_urp_loop_counts[of urp cmds urp_acc0] by (simp_all add: urp_acc0_def)

lemma script_para_urp_eq:
  "script_para_urp J pf lins nome rd pasta =
    (let cmds = parse_script_moves pf lins;
         m = length (filter with_joints cmds);
         i = length (filter is_io cmds);
         k = length (filter without_joints cmds);
         caminho = J pasta (nome @ ''.urp'')
     in if falsy_robot rd then failure msg_no_robot
        else if m = 0 \<and> i = 0 then failure msg_no_commands
        else \<lparr> success = True,
               message = ''Movimentos: '' @ str_nat m @ nl @ ''IOs: '' @ str_nat i
                         @ (if 0 < k then skipped_note k else []) @ nl @ nl
                         @ ''Arquivo: '' @ caminho,
               out_path = Some caminho,
               written = [(caminho, UrpTree (urp_root nome (urp_of rd)
                            (main_children (script_urp_loop (urp_of rd) cmds urp_acc0))))] \<rparr>)"
  by (simp add: script_para_urp_def Let_def script_urp_loop_counts0)

lemma script_loop_append:
  "script_loop ts (xs @ ys) acc =
     (case script_loop ts xs acc of Inl e \<Rightarrow> Inl e | Inr acc' \<Rightarrow> script_loop ts ys acc')"
  by (induction xs arbitrary: acc) (simp_all split: sum.splits)

lemma script_step_skip:
  "st_type step = ''MOVE_L'' \<Longrightarrow> get_cartesian_pose (lookup_target ts (st_target step)) = Inr None
   \<Longrightarrow> script_step ts step acc = Inr acc"
  by (simp add: script_step_def)

lemma script_loop_skip:
  assumes "st_type step = ''MOVE_L''"
    and "get_cartesian_pose (lookup_target ts (st_target step)) = Inr None"
  shows "script_loop ts (xs @ step # ys) acc = script_loop ts (xs @ ys) acc"
  by (simp add: script_loop_append script_step_skip[OF assms] split: sum.splits)

text \<open>
  Claim C7, as the code has it. The IR-to-script emitter drops a MOVE\_L step whose target
  has no resolvable pose without a trace: the whole outcome (lines, counts, message,
  file) is the one of the same program without that step. The script-to-archive emitter
  counts the moves without joint data and skips them; the count is reported in the
  success message whenever at least one move or IO element was emitted, and when none
  was, the conversion fails with "Nenhum comando encontrado" and reports no count.
\<close>

theorem partial_data_policy:
  assumes "st_type step = ''MOVE_L''"
    and "get_cartesian_pose (lookup_target (ir_targets r) (st_target step)) = Inr None"
  shows "ruki_para_script J (r\<lparr>ir_steps := xs @ step # ys\<rparr>) rd pasta
           = ruki_para_script J (r\<lparr>ir_steps := xs @ ys\<rparr>) rd pasta
       \<and> script_para_urp J pf lins nome rd' pasta' =
          (let cmds = parse_script_moves pf lins;
               m = length (filter with_joints cmds);
               i = length (filter is_io cmds);
               k = length (filter without_joints cmds);
               caminho = J pasta' (nome @ ''.urp'')
           in if falsy_robot rd' then failure msg_no_robot
              else if m = 0 \<and> i = 0 then failure msg_no_commands
              else \<lparr> success = True,
                     message = ''Movimentos: '' @ str_nat m @ nl @ ''IOs: '' @ str_nat i
                               @ (if 0 < k then skipped_note k else []) @ nl @ nl
                               @ ''Arquivo: '' @ caminho,
                     out_path = Some caminho,
                     written = [(caminho, UrpTree (urp_root nome (urp_of rd')
                                  (main_children (script_urp_loop (urp_of rd') cmds urp_acc0))))] \<rparr>)"
proof
  show "ruki_para_script J (r\<lparr>ir_steps := xs @ step # ys\<rparr>) rd pasta
           = ruki_para_script J (r\<lparr>ir_steps := xs @ ys\<rparr>) rd pasta"
    using script_loop_skip[OF assms] by (simp add: ruki_para_script_def nome_of_def)
qed (rule script_para_urp_eq)

lemma parse_pose_only:
  "parse_script_moves demo_float [pose_only_line]
     = [Move ''MoveL'' None (Val [1 / 10, 2 / 10, 3 / 10, 0, 0, 0])]"
  by (simp add: parse_script_moves_def parse_line_def pose_only_line_def no_match_def
      joints_from_comment_of_def first_match_def demo_float_def nonempty_def nullable_def Let_def)

text \<open>
  Claim C7 as stated fails: a script whose only command is a linear move written as a
  pose (no joint comment) has one move without joint data, and the archive emitter then
  fails with "Nenhum comando encontrado" instead of succeeding with a count.
\<close>

theorem skipped_moves_alone_fail:
  "filter without_joints (parse_script_moves demo_float [pose_only_line])
     = [Move ''MoveL'' None (Val [1 / 10, 2 / 10, 3 / 10, 0, 0, 0])]
   \<and> script_para_urp demo_join demo_float [pose_only_line] ''prog'' (Some demo_robot) ''out''
     = \<lparr>success = False, message = ''Nenhum comando encontrado'', out_path = None, written = []\<rparr>"
  unfolding script_para_urp_eq parse_pose_only
  by (simp add: without_joints_def with_joints_def is_io_def falsy_robot_def demo_robot_def
      failure_def msg_no_commands_def)

theorem partial_data_policy_witness:
  "st_type demo_movel_step = ''MOVE_L''
   \<and> get_cartesian_pose (lookup_target (ir_targets empty_ir) (st_target demo_movel_step)) = Inr None
   \<and> ruki_para_script demo_join (empty_ir\<lparr>ir_steps := [] @ demo_movel_step # []\<rparr>) None ''out''
      = ruki_para_script demo_join (empty_ir\<lparr>ir_steps := [] @ []\<rparr>) None ''out''
   \<and> success (script_para_urp demo_join demo_float [] ''prog'' None ''out'') = False"
proof -
  have a: "st_type demo_movel_step = ''MOVE_L''" by (simp add: demo_movel_step_def)
  have b: "get_cartesian_pose (lookup_target (ir_targets empty_ir) (st_target demo_movel_step)) = Inr None"
    by (simp add: get_cartesian_pose_def lookup_target_def empty_ir_def demo_movel_step_def
        target_dict_def no_target_def)
  show ?thesis
    using partial_data_policy[OF a b, of demo_join "[]" "[]" None "''out''" demo_float "[]" "''prog''" None "''out''"] a b
    by (simp add: falsy_robot_def failure_def)
qed

text \<open>
  Claim C2 on the IR-to-archive path. With a catalog entry and an IR without any step,
  \<open>ruki_para_urp\<close> returns success with the counts 0 and 0 and writes the archive; the test
  for an empty result that \<open>script_para_urp\<close> makes is missing here.
\<close>

theorem ruki_para_urp_empty_succeeds:
  "ruki_para_urp J empty_ir (Some demo_robot) pasta =
     Inr \<lparr> success = True,
           message = ''Modelo: UR10e'' @ nl @ ''Movimentos: 0'' @ nl @ ''IOs: 0'' @ nl @ nl
                     @ ''Arquivo: '' @ J pasta ''prog.urp'',
           out_path = Some (J pasta ''prog.urp''),
           written = [(J pasta ''prog.urp'', UrpTree (urp_root ''prog'' [] []))] \<rparr>"
  by (simp add: ruki_para_urp_def Let_def empty_ir_def demo_robot_def falsy_robot_def urp_of_def
      nome_of_def nome_completo_of_def urp_acc0_def str_nat.simps digit_char_def)

lemma script_para_urp_empty_fails:
  "\<not> falsy_robot rd \<Longrightarrow> filter with_joints (parse_script_moves pf lins) = []
   \<Longrightarrow> filter is_io (parse_script_moves pf lins) = []
   \<Longrightarrow> script_para_urp J pf lins nome rd pasta = failure msg_no_commands"
  by (simp add: script_para_urp_eq Let_def)

lemma urp_loop_success_always:
  "\<not> falsy_robot rd \<Longrightarrow> ruki_para_urp J r rd pasta = Inr out \<Longrightarrow> success out \<and> written out \<noteq> []"
  by (auto simp: ruki_para_urp_def Let_def split: sum.splits)

section \<open>Reference attributes of the archive\<close>

lemma first_then_snoc:
  "first_then f r (xs @ [x]) = first_then f r xs @ [if xs = [] then f x else r]"
  by (cases xs) simp_all

lemma move_elem_props [simp]:
  "is_move (move_elem urp motion m w js)" "\<not> is_set (move_elem urp motion m w js)"
  "feature_attrib (move_elem urp motion m w js) = (if m = 0 then move_first else move_later)"
  by (simp_all add: move_elem_def is_move_def is_set_def feature_attrib_def find_child_def
      move_first_def move_later_def)

lemma set_elem_props [simp]:
  "is_set (set_elem i idx on)" "\<not> is_move (set_elem i idx on)"
  "pin_attrib (set_elem i idx on) = (if i = 0 then pin_first idx else pin_later)"
  by (simp_all add: set_elem_def is_move_def is_set_def pin_attrib_def find_child_def
      pin_first_def pin_later_def)

lemma main_children_of_root [simp]: "main_children_of (urp_root nome urp kids) = kids"
  by (simp add: main_children_of_def urp_root_def find_child_def)

lemma refs_inv0: "refs_inv urp_acc0 [] []"
  by (simp add: refs_inv_def urp_acc0_def)

lemma refs_inv_script_step:
  assumes "refs_inv acc ms idxs"
  shows "refs_inv (script_urp_step urp c acc)
           (ms @ filter with_joints [c]) (idxs @ map io_text (filter is_io [c]))"
  using assms
  by (auto simp: refs_inv_def script_urp_step_def Let_def with_joints_def is_io_def io_text_def
      first_then_snoc split: cmd.splits option.splits)

lemma refs_inv_script_loop:
  "refs_inv acc ms idxs \<Longrightarrow>
   refs_inv (script_urp_loop urp cmds acc)
     (ms @ filter with_joints cmds) (idxs @ map io_text (filter is_io cmds))"
proof (induction cmds arbitrary: acc ms idxs)
  case Nil
  then show ?case by (simp add: script_urp_loop_def)
next
  case (Cons c cmds)
  from Cons.IH[OF refs_inv_script_step[OF Cons.prems, of urp c]]
  show ?case by (simp add: script_urp_loop_def split: if_splits)
qed

lemma refs_inv_urp_step:
  assumes "refs_inv acc ms idxs" and "urp_step urp ts step acc = Inr acc'"
  shows "refs_inv acc' (ms @ filter is_move_step [step])
           (idxs @ map io_index_or_0 (filter is_io_step [step]))"
  using assms
  by (auto simp: refs_inv_def urp_step_def Let_def is_move_step_def is_io_step_def
      first_then_snoc split: sum.splits if_splits)

lemma refs_inv_urp_loop:
  "refs_inv acc ms idxs \<Longrightarrow> urp_loop urp ts stps acc = Inr acc' \<Longrightarrow>
   refs_inv acc' (ms @ filter is_move_step stps)
     (idxs @ map io_index_or_0 (filter is_io_step stps))"
proof (induction stps arbitrary: acc ms idxs)
  case Nil
  then show ?case by simp
next
  case (Cons s stps)
  from Cons.prems(2) obtain a where a: "urp_step urp ts s acc = Inr a"
    and l: "urp_loop urp ts stps a = Inr acc'"
    by (auto split: sum.splits)
  from Cons.IH[OF refs_inv_urp_step[OF Cons.prems(1) a] l]
  show ?case by (simp split: if_splits)
qed

lemma archive_docs_script:
  "doc \<in> set (archive_docs (script_para_urp J pf lins nome rd pasta)) \<Longrightarrow>
   doc = urp_root nome (urp_of rd)
           (main_children (script_urp_loop (urp_of rd) (parse_script_moves pf lins) urp_acc0))"
  by (auto simp: script_para_urp_def archive_docs_def failure_def Let_def split: if_splits)

lemma archive_docs_ruki:
  "ruki_para_urp J r rd pasta = Inr out \<Longrightarrow> doc \<in> set (archive_docs out) \<Longrightarrow>
   \<exists>acc. urp_loop (urp_of rd) (ir_targets r) (ir_steps r) urp_acc0 = Inr acc
         \<and> doc = urp_root (nome_of r) (urp_of rd) (main_children acc)"
  by (auto simp: ruki_para_urp_def archive_docs_def failure_def Let_def split: if_splits sum.splits)

lemma archive_docs_converter:
  "converter_ruki_para_urp J catalog r marca modelo pasta = Inr out \<Longrightarrow>
   doc \<in> set (archive_docs out) \<Longrightarrow>
   \<exists>acc. urp_loop (urp_of (get_robot_data catalog marca modelo)) (ir_targets r) (ir_steps r)
           urp_acc0 = Inr acc
         \<and> doc = urp_root (nome_of r) (urp_of (get_robot_data catalog marca modelo))
                 (main_children acc)"
  by (auto simp: converter_ruki_para_urp_def archive_docs_def failure_def Let_def
      split: if_splits sum.splits)

lemma refs_of_acc:
  "refs_inv acc ms idxs \<Longrightarrow>
   move_refs (urp_root nome urp (main_children acc)) = first_then (\<lambda>_. move_first) move_later ms
   \<and> pin_refs (urp_root nome urp (main_children acc)) = first_then pin_first pin_later idxs"
  by (simp add: refs_inv_def move_refs_def pin_refs_def)

lemma script_doc_refs:
  assumes "doc \<in> set (archive_docs (script_para_urp J pf lins nome rd pasta))"
  shows "move_refs doc = first_then (\<lambda>_. move_first) move_later
                            (filter with_joints (parse_script_moves pf lins))
       \<and> pin_refs doc = first_then pin_first pin_later
                            (map io_text (filter is_io (parse_script_moves pf lins)))"
  using refs_of_acc[OF refs_inv_script_loop[OF refs_inv0, of "urp_of rd" "parse_script_moves pf lins"]]
  unfolding archive_docs_script[OF assms] by simp

lemma urp_loop_doc_refs:
  assumes "urp_loop urp ts stps urp_acc0 = Inr acc"
  shows "move_refs (urp_root nome urp (main_children acc))
           = first_then (\<lambda>_. move_first) move_later (filter is_move_step stps)
       \<and> pin_refs (urp_root nome urp (main_children acc))
           = first_then pin_first pin_later (map io_index_or_0 (filter is_io_step stps))"
  using refs_of_acc[OF refs_inv_urp_loop[OF refs_inv0 assms]] by simp

text \<open>
  Claim C6. In every archive document the three archive emitters write, the \<open>feature\<close>
  child of the first \<open>Move\<close> element carries \<open>referencedName="Joint_0_name"\<close> and that of every
  later \<open>Move\<close> element \<open>reference="../../Move/feature"\<close>; the \<open>pin\<close> child of the first \<open>Set\<close>
  element carries \<open>referencedName="digital_out[i]"\<close> for the index \<open>i\<close> of the first IO
  command, and that of every later \<open>Set\<close> element \<open>reference="../../Set/pin"\<close>. The two
  alternations are read off the moves and the IO commands separately, so the order in
  which the two kinds interleave plays no part.
\<close>

theorem archive_reference_alternation:
  "(doc \<in> set (archive_docs (script_para_urp J pf lins nome rd pasta)) \<longrightarrow>
      move_refs doc = first_then (\<lambda>_. move_first) move_later
                        (filter with_joints (parse_script_moves pf lins))
      \<and> pin_refs doc = first_then pin_first pin_later
                        (map io_text (filter is_io (parse_script_moves pf lins))))
   \<and> (ruki_para_urp J r rd2 pasta2 = Inr out2 \<and> doc2 \<in> set (archive_docs out2) \<longrightarrow>
      move_refs doc2 = first_then (\<lambda>_. move_first) move_later (filter is_move_step (ir_steps r))
      \<and> pin_refs doc2 = first_then pin_first pin_later
                        (map io_index_or_0 (filter is_io_step (ir_steps r))))
   \<and> (converter_ruki_para_urp J catalog r3 marca modelo pasta3 = Inr out3
        \<and> doc3 \<in> set (archive_docs out3) \<longrightarrow>
      move_refs doc3 = first_then (\<lambda>_. move_first) move_later (filter is_move_step (ir_steps r3))
      \<and> pin_refs doc3 = first_then pin_first pin_later
                        (map io_index_or_0 (filter is_io_step (ir_steps r3))))"
proof (intro conjI impI)
  assume "doc \<in> set (archive_docs (script_para_urp J pf lins nome rd pasta))"
  from script_doc_refs[OF this]
  show "move_refs doc = first_then (\<lambda>_. move_first) move_later
                        (filter with_joints (parse_script_moves pf lins))"
    and "pin_refs doc = first_then pin_first pin_later
                        (map io_text (filter is_io (parse_script_moves pf lins)))"
    by simp_all
next
  assume "ruki_para_urp J r rd2 pasta2 = Inr out2 \<and> doc2 \<in> set (archive_docs out2)"
  then obtain acc where "urp_loop (urp_of rd2) (ir_targets r) (ir_steps r) urp_acc0 = Inr acc"
    "doc2 = urp_root (nome_of r) (urp_of rd2) (main_children acc)"
    using archive_docs_ruki by blast
  with urp_loop_doc_refs[of "urp_of rd2" "ir_targets r" "ir_steps r" acc "nome_of r"]
  show "move_refs doc2 = first_then (\<lambda>_. move_first) move_later (filter is_move_step (ir_steps r))"
    and "pin_refs doc2 = first_then pin_first pin_later
                        (map io_index_or_0 (filter is_io_step (ir_steps r)))"
    by simp_all
next
  assume "converter_ruki_para_urp J catalog r3 marca modelo pasta3 = Inr out3
        \<and> doc3 \<in> set (archive_docs out3)"
  then obtain acc where
    "urp_loop (urp_of (get_robot_data catalog marca modelo)) (ir_targets r3) (ir_steps r3)
       urp_acc0 = Inr acc"
    "doc3 = urp_root (nome_of r3) (urp_of (get_robot_data catalog marca modelo)) (main_children acc)"
    using archive_docs_converter by blast
  with urp_loop_doc_refs[of "urp_of (get_robot_data catalog marca modelo)" "ir_targets r3"
      "ir_steps r3" acc "nome_of r3"]
  show "move_refs doc3 = first_then (\<lambda>_. move_first) move_later (filter is_move_step (ir_steps r3))"
    and "pin_refs doc3 = first_then pin_first pin_later
                        (map io_index_or_0 (filter is_io_step (ir_steps r3)))"
    by simp_all
qed

lemma str_nat_digits: "str_nat 1 = ''1''" "str_nat 2 = ''2''" "str_nat (Suc 0) = ''1''"
  "str_nat (Suc (Suc 0)) = ''2''"
  by (simp_all add: str_nat.simps digit_char_def)

lemma fmt6_deg2rad_zero: "fmt_f 6 (deg2rad 0) = ''0.000000''"
  by (simp add: deg2rad_zero fmt6_zero)

lemma parse_demo_lines:
  "parse_script_moves demo_float demo_lines =
     [Move ''MoveJ'' (Some [0, 0, 0, 0, 0, 0]) Absent, IO 1 True,
      Move ''MoveJ'' (Some [0, 0, 0, 0, 0, 0]) Absent, IO 2 False]"
  by (simp add: parse_script_moves_def parse_line_def demo_lines_def movej_zero_line_def
      io_line_def no_match_def joints_from_comment_of_def first_match_def demo_float_def
      nonempty_def radians_to_degrees_def rad2deg_def Let_def)

lemma join_six_zeros: "join '', '' (map (fmt_f 6) (map deg2rad [0, 0, 0, 0, 0, 0])) = zeros_text"
  using join_zeros unfolding replicate_6 .

lemma demo_script_outcome:
  "archive_docs (script_para_urp demo_join demo_float demo_lines ''prog'' (Some demo_robot) ''out'')
     = [demo_script_doc]"
  unfolding script_para_urp_eq parse_demo_lines
  by (simp add: Let_def archive_docs_def with_joints_def is_io_def falsy_robot_def demo_robot_def
      urp_of_def script_urp_loop_def script_urp_step_def urp_acc0_def fmt6_deg2rad_zero
      zeros_text_def str_nat_digits demo_script_doc_def numeral_2_eq_2)

lemma demo_urp_loop:
  "urp_loop [] [] [demo_move_step, demo_io_step, demo_movel_step] urp_acc0 =
     Inr \<lparr>main_children = [move_elem [] ''MoveJ'' 0 1 zeros_text, set_elem 0 ''1'' True,
                            move_elem [] ''MoveL'' 1 2 zeros_text],
          mc = 2, ic = 1, wp = 2, movel_sem_joints = 0\<rparr>"
  by (simp add: urp_step_def Let_def demo_move_step_def demo_io_step_def demo_movel_step_def
      lookup_target_def target_dict_def joints_or_zeros_def no_target_def replicate_6
      fmt6_deg2rad_zero zeros_text_def urp_acc0_def
      io_index_or_0_def io_str_def str_int_def str_nat_digits truthy_def numeral_2_eq_2)

lemma demo_ir_outcomes:
  "ruki_para_urp demo_join demo_ir (Some demo_robot) ''out'' = Inr (demo_ir_outcome [])"
  "converter_ruki_para_urp demo_join demo_catalog demo_ir ''Universal Robots'' ''UR10e'' ''out''
     = Inr (demo_ir_outcome (''Convertido!'' @ nl @ nl))"
proof -
  have f: "ir_steps demo_ir = [demo_move_step, demo_io_step, demo_movel_step]"
    "ir_targets demo_ir = []" "nome_of demo_ir = ''prog''"
    by (simp_all add: demo_ir_def empty_ir_def nome_of_def)
  have g: "get_robot_data demo_catalog ''Universal Robots'' ''UR10e'' = Some demo_robot"
    by (simp add: get_robot_data_def demo_catalog_def)
  have h: "falsy_robot (Some demo_robot) = False" "urp_of (Some demo_robot) = []"
    "nome_completo_of (Some demo_robot) = ''UR10e''"
    by (simp_all add: falsy_robot_def demo_robot_def urp_of_def nome_completo_of_def)
  show "ruki_para_urp demo_join demo_ir (Some demo_robot) ''out'' = Inr (demo_ir_outcome [])"
    unfolding ruki_para_urp_def Let_def f h demo_urp_loop
    by (simp add: demo_ir_outcome_def demo_ir_doc_def demo_join_def str_nat_digits)
  show "converter_ruki_para_urp demo_join demo_catalog demo_ir ''Universal Robots'' ''UR10e'' ''out''
     = Inr (demo_ir_outcome (''Convertido!'' @ nl @ nl))"
    unfolding converter_ruki_para_urp_def Let_def f g h demo_urp_loop
    by (simp add: demo_ir_outcome_def demo_ir_doc_def demo_join_def str_nat_digits)
qed

theorem archive_reference_alternation_witness:
  "demo_script_doc \<in> set (archive_docs
      (script_para_urp demo_join demo_float demo_lines ''prog'' (Some demo_robot) ''out''))
   \<and> move_refs demo_script_doc = [move_first, move_later]
   \<and> pin_refs demo_script_doc = [pin_first ''1'', pin_later]
   \<and> ruki_para_urp demo_join demo_ir (Some demo_robot) ''out'' = Inr (demo_ir_outcome [])
   \<and> converter_ruki_para_urp demo_join demo_catalog demo_ir ''Universal Robots'' ''UR10e'' ''out''
       = Inr (demo_ir_outcome (''Convertido!'' @ nl @ nl))
   \<and> demo_ir_doc \<in> set (archive_docs (demo_ir_outcome []))
   \<and> demo_ir_doc \<in> set (archive_docs (demo_ir_outcome (''Convertido!'' @ nl @ nl)))
   \<and> move_refs demo_ir_doc = [move_first, move_later]
   \<and> pin_refs demo_ir_doc = [pin_first ''1'']"
proof -
  have d1: "demo_script_doc \<in> set (archive_docs
      (script_para_urp demo_join demo_float demo_lines ''prog'' (Some demo_robot) ''out''))"
    by (simp add: demo_script_outcome)
  have d2: "demo_ir_doc \<in> set (archive_docs (demo_ir_outcome p))" for p
    by (simp add: archive_docs_def demo_ir_outcome_def)
  have steps: "filter is_move_step (ir_steps demo_ir) = [demo_move_step, demo_movel_step]"
    "map io_index_or_0 (filter is_io_step (ir_steps demo_ir)) = [''1'']"
    by (simp_all add: demo_ir_def empty_ir_def is_move_step_def is_io_step_def demo_move_step_def
        demo_io_step_def demo_movel_step_def io_index_or_0_def io_str_def str_int_def str_nat_digits)
  have cmds: "filter with_joints (parse_script_moves demo_float demo_lines)
                = [Move ''MoveJ'' (Some [0, 0, 0, 0, 0, 0]) Absent,
                   Move ''MoveJ'' (Some [0, 0, 0, 0, 0, 0]) Absent]"
    "map io_text (filter is_io (parse_script_moves demo_float demo_lines)) = [''1'', ''2'']"
    by (simp_all add: parse_demo_lines with_joints_def is_io_def io_text_def str_nat_digits)
  show ?thesis
    using archive_reference_alternation[of demo_script_doc demo_join demo_float demo_lines
        "''prog''" "Some demo_robot" "''out''" demo_ir "Some demo_robot" "''out''"
        "demo_ir_outcome []" demo_ir_doc demo_catalog demo_ir "''Universal Robots''" "''UR10e''"
        "''out''" "demo_ir_outcome (''Convertido!'' @ nl @ nl)" demo_ir_doc]
      d1 d2 demo_ir_outcomes
    by (simp add: steps cmds)
qed

section \<open>The unit heuristic of the parser\<close>

lemma parse_line_movej:
  assumes "\<not> skipped_line lin" "rx_movej lin = Some pieces" "floats pf pieces = Some vs"
    "\<not> nonempty (joints_from_comment_of pf lin)"
  shows "parse_line pf lin = [Move ''MoveJ'' (Some (radians_to_degrees (take 6 vs))) Absent]"
  using assms by (simp add: parse_line_def skipped_line_def Let_def)

lemma joints_from_comment_eq:
  assumes "rx_joints_comment lin = Some cps" "floats pf (map rstrip_paren cps) = Some cs"
  shows "joints_from_comment_of pf lin = Some (radians_to_degrees (take 6 cs))"
  using assms by (simp add: joints_from_comment_of_def)

lemma radians_examples:
  "radians_to_degrees rad_values = map rad2deg rad_values"
  "radians_to_degrees deg_values = deg_values"
  by (simp_all add: radians_to_degrees_def rad_values_def deg_values_def)

text \<open>
  Claim C5. A joint list the parser reads (the values of a \<open>movej\<close> call, or of a
  \<open>#JOINTS\<close> comment), cut to six values, is converted from radians to degrees when every
  value has absolute value below 7, and is left as it is when some value reaches 7; the
  copy of the heuristic in \<open>converter_script_para_robodk\<close> does the same. The list
  \<open>[0.1, -0.2, 0.3, 0.0, 1.5, -1.5]\<close> is converted, \<open>[45, -90, 0, 90, 0, 180]\<close> is not.
\<close>

theorem unit_heuristic:
  "(\<not> skipped_line lin \<and> rx_movej lin = Some pieces \<and> floats pf pieces = Some vs
      \<and> \<not> nonempty (joints_from_comment_of pf lin) \<longrightarrow>
      parse_line pf lin =
        [Move ''MoveJ'' (Some (if list_all (\<lambda>v. \<bar>v\<bar> < 7) (take 6 vs)
                               then map rad2deg (take 6 vs) else take 6 vs)) Absent])
   \<and> (rx_joints_comment lin2 = Some cps \<and> floats pf (map rstrip_paren cps) = Some cs \<longrightarrow>
      joints_from_comment_of pf lin2 =
        Some (if list_all (\<lambda>v. \<bar>v\<bar> < 7) (take 6 cs) then map rad2deg (take 6 cs) else take 6 cs))
   \<and> (floats pf pieces3 = Some ws \<longrightarrow>
      robodk_move_code pf tipo pieces3 =
        Some (''robot.'' @ tipo @ ''(['' @
              join '', '' (map (fmt_f 4) (if list_all (\<lambda>v. \<bar>v\<bar> < 7) (take 6 ws)
                                           then map rad2deg (take 6 ws) else take 6 ws))
              @ ''])'' @ nl))
   \<and> radians_to_degrees rad_values = map rad2deg rad_values
   \<and> radians_to_degrees deg_values = deg_values"
  using parse_line_movej[of lin pieces pf vs] joints_from_comment_eq[of lin2 cps pf cs]
  by (auto simp: radians_to_degrees_def[of "take 6 vs"] radians_to_degrees_def[of "take 6 cs"]
      radians_to_degrees_def[of "take 6 ws"] radians_examples robodk_move_code_def)

lemma joint_float_pieces:
  "floats joint_float rad_pieces = Some rad_values"
  "floats joint_float deg_pieces = Some deg_values"
  "floats joint_float (map rstrip_paren deg_pieces) = Some deg_values"
  by (simp_all add: joint_float_def rad_pieces_def deg_pieces_def rad_values_def deg_values_def
      rstrip_paren_def)

theorem unit_heuristic_witness:
  "\<not> skipped_line rad_line \<and> rx_movej rad_line = Some rad_pieces
   \<and> floats joint_float rad_pieces = Some rad_values
   \<and> \<not> nonempty (joints_from_comment_of joint_float rad_line)
   \<and> parse_line joint_float rad_line = [Move ''MoveJ'' (Some (map rad2deg rad_values)) Absent]
   \<and> rx_joints_comment deg_comment_line = Some deg_pieces
   \<and> floats joint_float (map rstrip_paren deg_pieces) = Some deg_values
   \<and> joints_from_comment_of joint_float deg_comment_line = Some deg_values
   \<and> floats joint_float deg_pieces = Some deg_values
   \<and> robodk_move_code joint_float ''MoveJ'' deg_pieces =
        Some (''robot.MoveJ(['' @ join '', '' (map (fmt_f 4) deg_values) @ ''])'' @ nl)"
proof -
  have a: "\<not> skipped_line rad_line" "rx_movej rad_line = Some rad_pieces"
    "\<not> nonempty (joints_from_comment_of joint_float rad_line)"
    by (simp_all add: skipped_line_def rad_line_def no_match_def joints_from_comment_of_def
        nonempty_def)
  have b: "rx_joints_comment deg_comment_line = Some deg_pieces"
    by (simp add: deg_comment_line_def no_match_def)
  have r: "list_all (\<lambda>v. \<bar>v\<bar> < 7) rad_values" "take 6 rad_values = rad_values"
    by (simp_all add: rad_values_def)
  have d: "\<not> list_all (\<lambda>v. \<bar>v\<bar> < 7) deg_values" "take 6 deg_values = deg_values"
    by (simp_all add: deg_values_def)
  show ?thesis
    using unit_heuristic[of rad_line rad_pieces joint_float rad_values deg_comment_line deg_pieces
        deg_values deg_pieces deg_values "''MoveJ''"] a b joint_float_pieces
    by (simp add: r d)
qed

section \<open>Model detection\<close>

lemma detectar_modelo_text:
  "detectar_modelo (TextFile ls) robos
     = find (\<lambda>m. search_word m (join nl (take 100 ls))) (map fst robos)"
  by (simp add: detectar_modelo_def)

lemma search_word_occurs: "search_word m txt \<Longrightarrow> search_plain True m txt"
  by (auto simp: search_word_def search_plain_def list_ex_iff)

lemma detectar_modelo_first_match:
  assumes "detectar_modelo (TextFile ls) robos = Some m"
  shows "\<exists>i < length robos. fst (robos ! i) = m \<and> search_word m (join nl (take 100 ls))
           \<and> (\<forall>j < i. \<not> search_word (fst (robos ! j)) (join nl (take 100 ls)))"
  using assms unfolding detectar_modelo_text find_Some_iff by auto

lemma detectar_modelo_none:
  "detectar_modelo (TextFile ls) robos = None
     \<longleftrightarrow> (\<forall>m \<in> fst ` set robos. \<not> search_word m (join nl (take 100 ls)))"
  unfolding detectar_modelo_text find_None_iff by auto

lemma detectar_modelo_absent:
  "\<forall>m \<in> fst ` set robos. \<not> search_plain True m (join nl (take 100 ls))
   \<Longrightarrow> detectar_modelo (TextFile ls) robos = None"
  unfolding detectar_modelo_none using search_word_occurs by blast

lemma detectar_modelo_ur20:
  "detectar_modelo (TextFile [''# Robot: ur20 arm'']) ur_models = Some ''UR20''"
  by code_simp


section \<open>The rotation round trip: extraction followed by reconstruction\<close>





























end
